theory Spec2Isabelle
  imports Complex_Main "HOL-Library.Word" "HOL-Library.AList"
begin

unbundle bit_operations_syntax

section \<open>Errors and Go result pairs\<close>

text \<open>
  A Go \<^verbatim>\<open>error\<close> made by \<^verbatim>\<open>errors.New\<close> or \<^verbatim>\<open>fmt.Errorf\<close> is modelled by its
  message, the text that \<^verbatim>\<open>err.Error()\<close> and the verb \<^verbatim>\<open>%v\<close> print. A Go result
  \<^verbatim>\<open>(string, error)\<close> is a pair whose second component is \<open>None\<close> for \<^verbatim>\<open>nil\<close>.
\<close>

datatype error = Error string

fun error_text :: "error \<Rightarrow> string" where
  "error_text (Error s) = s"

type_synonym result = "string \<times> error option"

text \<open>The errors that \<^verbatim>\<open>Assistant.Reply\<close>, \<^verbatim>\<open>Assistant.Title\<close> and
  \<^verbatim>\<open>Assistant.executeTool\<close> create themselves, under the names of the specification.\<close>

definition EmptyConversation :: error where
  "EmptyConversation = Error ''conversation has no messages''"

definition EmptyModelResponse :: error where
  "EmptyModelResponse = Error ''no choices returned by OpenAI''"

definition LoopExhausted :: error where
  "LoopExhausted = Error ''too many tool calls, unable to generate reply''"

definition EmptyTitle :: error where
  "EmptyTitle = Error ''empty response from OpenAI for title generation''"

definition ToolNotFound :: "string \<Rightarrow> error" where
  "ToolNotFound name = Error (''unknown tool: '' @ name)"

section \<open>Conversations, turns and the model client\<close>

text \<open>\<^verbatim>\<open>model.Role\<close> has the two constants \<^verbatim>\<open>RoleUser\<close> and \<^verbatim>\<open>RoleAssistant\<close>; the
  declaration of the type is not among the sources, so every other value it may hold is
  \<open>RoleOther\<close>.\<close>

datatype Role = RoleUser | RoleAssistant | RoleOther string

record ('i, 't) Message =
  msg_ID :: 'i
  msg_Role :: Role
  msg_Content :: string
  msg_CreatedAt :: 't
  msg_UpdatedAt :: 't

record ('i, 't) Conversation =
  conv_ID :: 'i
  conv_Title :: string
  conv_CreatedAt :: 't
  conv_UpdatedAt :: 't
  conv_Messages :: "('i, 't) Message list"

text \<open>A tool call of a model response: \<^verbatim>\<open>call.ID\<close>, \<^verbatim>\<open>call.Function.Name\<close>,
  \<^verbatim>\<open>call.Function.Arguments\<close>.\<close>

record ToolCall =
  call_ID :: string
  call_Name :: string
  call_Arguments :: string

text \<open>\<^verbatim>\<open>resp.Choices[k].Message\<close>.\<close>

record ChatCompletionMessage =
  Content :: string
  ToolCalls :: "ToolCall list"

text \<open>The turns sent to the model (\<^verbatim>\<open>openai.ChatCompletionMessageParamUnion\<close>), one
  constructor per function of the client library that the code builds them with.\<close>

datatype turn =
    SystemMessage string
  | UserMessage string
  | AssistantMessage string
  | ToParam ChatCompletionMessage
  | ToolMessage string string

datatype ChatModel = ChatModelO1 | ChatModelGPT4_1

record FunctionDefinitionParam =
  fn_Name :: string
  fn_Description :: string
  fn_Parameters :: string

record ChatCompletionNewParams =
  Model :: ChatModel
  Messages :: "turn list"
  Tools :: "FunctionDefinitionParam list"

text \<open>A tool: the interface \<^verbatim>\<open>Tool\<close>. Executing a tool and calling the model act on
  the world outside the program (clock, network), a state of type \<open>'w\<close> that every call
  receives and returns.\<close>

record 'w Tool =
  Name :: string
  Description :: string
  Parameters :: string
  Execute :: "string \<Rightarrow> 'w \<Rightarrow> result \<times> 'w"

text \<open>\<^verbatim>\<open>Assistant\<close>: \<open>cli\<close> is \<^verbatim>\<open>a.cli.Chat.Completions.New\<close>, which returns the
  choices of the response or an error; \<open>tools\<close> is the map from names to tools, kept as an
  association list (the order in which Go ranges over the map is not specified, and no
  property below depends on it).\<close>

record 'w Assistant =
  cli :: "ChatCompletionNewParams \<Rightarrow> 'w \<Rightarrow> (error + ChatCompletionMessage list) \<times> 'w"
  tools :: "(string \<times> 'w Tool) list"

definition registerTool :: "'w Tool \<Rightarrow> 'w Assistant \<Rightarrow> 'w Assistant" where
  "registerTool tool a = a\<lparr>tools := AList.update (Name tool) tool (tools a)\<rparr>"

definition toolDefinitions :: "'w Assistant \<Rightarrow> FunctionDefinitionParam list" where
  "toolDefinitions a =
     map (\<lambda>(_, tool). \<lparr>fn_Name = Name tool, fn_Description = Description tool,
                        fn_Parameters = Parameters tool\<rparr>) (tools a)"

definition executeTool :: "'w Assistant \<Rightarrow> string \<Rightarrow> string \<Rightarrow> 'w \<Rightarrow> result \<times> 'w" where
  "executeTool a name args w =
     (case map_of (tools a) name of
        None \<Rightarrow> (('''', Some (ToolNotFound name)), w)
      | Some tool \<Rightarrow> Execute tool args w)"

section \<open>Assistant.Reply\<close>

definition system_preamble :: string where
  "system_preamble =
     ''You are a helpful, concise AI assistant. Provide accurate, safe, and clear responses.''"

text \<open>The first loop of \<^verbatim>\<open>Reply\<close>: the \<^verbatim>\<open>switch\<close> on the role has two cases and no
  \<^verbatim>\<open>default\<close>.\<close>

fun seed_turns :: "('i, 't) Message list \<Rightarrow> turn list \<Rightarrow> turn list" where
  "seed_turns [] msgs = msgs"
| "seed_turns (m # ms) msgs =
     (case msg_Role m of
        RoleUser \<Rightarrow> seed_turns ms (msgs @ [UserMessage (msg_Content m)])
      | RoleAssistant \<Rightarrow> seed_turns ms (msgs @ [AssistantMessage (msg_Content m)])
      | RoleOther _ \<Rightarrow> seed_turns ms msgs)"

text \<open>The loop over \<^verbatim>\<open>message.ToolCalls\<close>: an error of \<^verbatim>\<open>executeTool\<close> replaces the
  result by its text, and a tool message is appended in every case.\<close>

fun dispatch_calls :: "'w Assistant \<Rightarrow> ToolCall list \<Rightarrow> turn list \<Rightarrow> 'w \<Rightarrow> turn list \<times> 'w" where
  "dispatch_calls a [] msgs w = (msgs, w)"
| "dispatch_calls a (call # calls) msgs w =
     (case executeTool a (call_Name call) (call_Arguments call) w of
        ((result, err), w') \<Rightarrow>
          (let result = (case err of
                           Some e \<Rightarrow> ''Tool execution failed: '' @ error_text e
                         | None \<Rightarrow> result)
           in dispatch_calls a calls (msgs @ [ToolMessage result (call_ID call)]) w'))"

text \<open>The loop \<^verbatim>\<open>for i := 0; i < 15; i++\<close>. The argument \<open>sent\<close> records the turn
  sequence of every model call made so far, in order; the program itself does not keep
  it, it is what an observer of the client sees.\<close>

function reply_loop ::
  "'w Assistant \<Rightarrow> nat \<Rightarrow> turn list \<Rightarrow> turn list list \<Rightarrow> 'w \<Rightarrow> result \<times> turn list list \<times> 'w"
where
  "reply_loop a i msgs sent w =
     (if i < 15 then
        (case cli a \<lparr>Model = ChatModelGPT4_1, Messages = msgs, Tools = toolDefinitions a\<rparr> w of
           (Inl err, w1) \<Rightarrow> (('''', Some err), sent @ [msgs], w1)
         | (Inr choices, w1) \<Rightarrow>
             (case choices of
                [] \<Rightarrow> (('''', Some EmptyModelResponse), sent @ [msgs], w1)
              | message # _ \<Rightarrow>
                  if length (ToolCalls message) > 0 then
                    (case dispatch_calls a (ToolCalls message) (msgs @ [ToParam message]) w1 of
                       (msgs', w2) \<Rightarrow> reply_loop a (i + 1) msgs' (sent @ [msgs]) w2)
                  else ((Content message, None), sent @ [msgs], w1)))
      else (('''', Some LoopExhausted), sent, w))"
  by pat_completeness auto
termination
  by (relation "measure (\<lambda>(a, i, msgs, sent, w). 15 - i)") auto

declare reply_loop.simps [simp del]

definition Reply ::
  "'w Assistant \<Rightarrow> ('i, 't) Conversation \<Rightarrow> 'w \<Rightarrow> result \<times> turn list list \<times> 'w" where
  "Reply a conv w =
     (if length (conv_Messages conv) = 0 then (('''', Some EmptyConversation), [], w)
      else reply_loop a 0 (seed_turns (conv_Messages conv) [SystemMessage system_preamble]) [] w)"

text \<open>One round of the loop on a response with a first choice (lines 131 to 164): the
  model is called on the turns, the turn of the model is appended and its tool calls are
  dispatched. A round acts on the turns and the world.\<close>

definition tool_round :: "'w Assistant \<Rightarrow> turn list \<times> 'w \<Rightarrow> turn list \<times> 'w" where
  "tool_round a s =
     (case cli a \<lparr>Model = ChatModelGPT4_1, Messages = fst s, Tools = toolDefinitions a\<rparr> (snd s) of
        (Inr (message # _), w1) \<Rightarrow>
          dispatch_calls a (ToolCalls message) (fst s @ [ToParam message]) w1
      | (_, w1) \<Rightarrow> (fst s, w1))"

section \<open>Functions of the Go library on strings\<close>

text \<open>A Go string is a sequence of bytes, and \<^verbatim>\<open>len\<close> and slicing count bytes; the type
  \<^typ>\<open>string\<close> of HOL is a list of bytes as well. Text beyond ASCII is in UTF-8, so one
  rune (code point) takes one to four bytes.\<close>

text \<open>The runes for which \<^verbatim>\<open>unicode.IsSpace\<close> holds, each in UTF-8: tab, line feed,
  vertical tab, form feed, carriage return, space, U+0085, U+00A0, U+1680, U+2000 to
  U+200A, U+2028, U+2029, U+202F, U+205F and U+3000.\<close>

definition white_space :: "string list" where
  "white_space =
     [[CHR 0x09], [CHR 0x0A], [CHR 0x0B], [CHR 0x0C], [CHR 0x0D], [CHR 0x20],
      [CHR 0xC2, CHR 0x85], [CHR 0xC2, CHR 0xA0],
      [CHR 0xE1, CHR 0x9A, CHR 0x80],
      [CHR 0xE2, CHR 0x80, CHR 0x80], [CHR 0xE2, CHR 0x80, CHR 0x81],
      [CHR 0xE2, CHR 0x80, CHR 0x82], [CHR 0xE2, CHR 0x80, CHR 0x83],
      [CHR 0xE2, CHR 0x80, CHR 0x84], [CHR 0xE2, CHR 0x80, CHR 0x85],
      [CHR 0xE2, CHR 0x80, CHR 0x86], [CHR 0xE2, CHR 0x80, CHR 0x87],
      [CHR 0xE2, CHR 0x80, CHR 0x88], [CHR 0xE2, CHR 0x80, CHR 0x89],
      [CHR 0xE2, CHR 0x80, CHR 0x8A],
      [CHR 0xE2, CHR 0x80, CHR 0xA8], [CHR 0xE2, CHR 0x80, CHR 0xA9],
      [CHR 0xE2, CHR 0x80, CHR 0xAF],
      [CHR 0xE2, CHR 0x81, CHR 0x9F],
      [CHR 0xE3, CHR 0x80, CHR 0x80]]"

text \<open>The width in bytes of the first of the given byte sequences that the string starts
  with, and 0 when it starts with none of them.\<close>

definition lead_width :: "string list \<Rightarrow> string \<Rightarrow> nat" where
  "lead_width rs s =
     (case List.find (\<lambda>r. r \<noteq> [] \<and> take (length r) s = r) rs of
        None \<Rightarrow> 0
      | Some r \<Rightarrow> length r)"

lemma lead_width_less: "lead_width rs s \<noteq> 0 \<Longrightarrow> length s - lead_width rs s < length s"
proof -
  assume nz: "lead_width rs s \<noteq> 0"
  then obtain r where "List.find (\<lambda>r. r \<noteq> [] \<and> take (length r) s = r) rs = Some r"
    by (auto simp: lead_width_def split: option.splits)
  then have "r \<noteq> []" and "take (length r) s = r"
    by (auto simp: find_Some_iff)
  then have "s \<noteq> []" by auto
  with nz show ?thesis by simp
qed

function trim_runes :: "string list \<Rightarrow> string \<Rightarrow> string" where
  "trim_runes rs s =
     (if lead_width rs s = 0 then s else trim_runes rs (drop (lead_width rs s) s))"
  by pat_completeness auto
termination
  by (relation "measure (\<lambda>(rs, s). length s)") (auto simp: lead_width_less)

declare trim_runes.simps [simp del]

text \<open>\<^verbatim>\<open>strings.TrimSpace\<close>: the white-space runes are cut from the front, then from the
  back (a rune is at the end of a string when its bytes, reversed, are at the front of
  the reversed string).\<close>

definition TrimSpace :: "string \<Rightarrow> string" where
  "TrimSpace s = rev (trim_runes (map rev white_space) (rev (trim_runes white_space s)))"

text \<open>\<^verbatim>\<open>strings.ReplaceAll\<close> where the old and the new string are one byte each.\<close>

definition ReplaceAll :: "string \<Rightarrow> char \<Rightarrow> char \<Rightarrow> string" where
  "ReplaceAll s old new = map (\<lambda>c. if c = old then new else c) s"

text \<open>\<^verbatim>\<open>strings.Trim\<close> for a cutset of ASCII bytes.\<close>

definition Trim :: "string \<Rightarrow> string \<Rightarrow> string" where
  "Trim s cutset =
     dropWhile (\<lambda>c. c \<in> set cutset) (rev (dropWhile (\<lambda>c. c \<in> set cutset) (rev s)))"

text \<open>\<^verbatim>\<open>strings.Join\<close>.\<close>

fun Join :: "string list \<Rightarrow> string \<Rightarrow> string" where
  "Join [] sep = []"
| "Join [x] sep = x"
| "Join (x # y # ys) sep = x @ sep @ Join (y # ys) sep"

text \<open>The number of runes of a string in UTF-8 (\<^verbatim>\<open>utf8.RuneCountInString\<close> on valid
  UTF-8): the bytes that are not continuation bytes \<^verbatim>\<open>10xxxxxx\<close>.\<close>

definition rune_count :: "string \<Rightarrow> nat" where
  "rune_count s =
     length (filter (\<lambda>c. \<not> (0x80 \<le> (of_char c :: nat) \<and> (of_char c :: nat) < 0xC0)) s)"

section \<open>Assistant.Title\<close>

definition title_instruction :: string where
  "title_instruction =
     ''Generate a concise, descriptive title for the conversation based on the user message. '' @
     ''The title should be a single line, no more than 80 characters, and should not include '' @
     ''any special characters or emojis.''"

text \<open>Lines 95 to 107 of \<^verbatim>\<open>Title\<close>, from the choices of the response to the result.\<close>

definition title_cutset :: string where
  "title_cutset = [CHR '' '', CHR 0x09, CHR 0x0D, CHR 0x0A, CHR ''-'', CHR 0x22, CHR 0x27]"

definition title_of_choices :: "ChatCompletionMessage list \<Rightarrow> result" where
  "title_of_choices choices =
     (case choices of
        [] \<Rightarrow> ('''', Some EmptyTitle)
      | choice # _ \<Rightarrow>
          if TrimSpace (Content choice) = '''' then ('''', Some EmptyTitle)
          else
            (let title = Content choice;
                 title = ReplaceAll title (CHR 0x0A) (CHR '' '');
                 title = Trim title title_cutset;
                 title = (if length title > 80 then take 80 title else title)
             in (title, None)))"

text \<open>\<^verbatim>\<open>Title\<close> returns, like \<open>Reply\<close>, the turn sequences of the model calls it made.\<close>

definition Title ::
  "'w Assistant \<Rightarrow> ('i, 't) Conversation \<Rightarrow> 'w \<Rightarrow> result \<times> turn list list \<times> 'w" where
  "Title a conv w =
     (if length (conv_Messages conv) = 0 then ((''An empty conversation'', None), [], w)
      else
        (let msgs = [AssistantMessage title_instruction] @
                      map (\<lambda>m. UserMessage (msg_Content m)) (conv_Messages conv)
         in case cli a \<lparr>Model = ChatModelO1, Messages = msgs, Tools = []\<rparr> w of
              (Inl err, w1) \<Rightarrow> (('''', Some err), [msgs], w1)
            | (Inr choices, w1) \<Rightarrow> (title_of_choices choices, [msgs], w1)))"

section \<open>Server.StartConversation\<close>

text \<open>The interface \<^verbatim>\<open>Assistant\<close> of the server. \<^verbatim>\<open>StartConversation\<close> runs \<open>Title\<close> and
  \<open>Reply\<close> in two goroutines on the same conversation, which neither changes, and reads
  both results after \<^verbatim>\<open>wg.Wait()\<close>; each result is a function of that conversation.\<close>

record ('i, 't) Assist =
  assist_Title :: "('i, 't) Conversation \<Rightarrow> result"
  assist_Reply :: "('i, 't) Conversation \<Rightarrow> result"

text \<open>The repository is a state of type \<open>'r\<close>; \<^verbatim>\<open>CreateConversation\<close> returns an error or
  \<^verbatim>\<open>nil\<close> and the new state. \<open>Hex\<close> is \<^verbatim>\<open>ObjectID.Hex\<close>.\<close>

record ('i, 't, 'r) Server =
  assist :: "('i, 't) Assist"
  CreateConversation :: "('i, 't) Conversation \<Rightarrow> 'r \<Rightarrow> error option \<times> 'r"
  Hex :: "'i \<Rightarrow> string"

text \<open>The values that one call draws from \<^verbatim>\<open>primitive.NewObjectID()\<close> and
  \<^verbatim>\<open>time.Now()\<close>, in the order of the source.\<close>

record ('i, 't) Drawn =
  id_conv :: 'i
  now_conv_created :: 't
  now_conv_updated :: 't
  id_user :: 'i
  now_user_created :: 't
  now_user_updated :: 't
  id_reply :: 'i
  now_reply_created :: 't
  now_reply_updated :: 't

record StartConversationResponse =
  ConversationId :: string
  resp_Title :: string
  resp_Reply :: string

text \<open>\<^verbatim>\<open>twirp.RequiredArgumentError\<close>.\<close>

definition RequiredArgumentError :: "string \<Rightarrow> error" where
  "RequiredArgumentError arg = Error (''twirp error invalid_argument: '' @ arg @ '' is required'')"

text \<open>The conversation that \<^verbatim>\<open>StartConversation\<close> builds first (lines 33 to 45), and
  the message it appends for a reply (lines 104 to 110).\<close>

definition new_conversation :: "('i, 't) Drawn \<Rightarrow> string \<Rightarrow> ('i, 't) Conversation" where
  "new_conversation d message =
     \<lparr>conv_ID = id_conv d, conv_Title = ''Untitled conversation'',
      conv_CreatedAt = now_conv_created d, conv_UpdatedAt = now_conv_updated d,
      conv_Messages =
        [\<lparr>msg_ID = id_user d, msg_Role = RoleUser, msg_Content = message,
          msg_CreatedAt = now_user_created d, msg_UpdatedAt = now_user_updated d\<rparr>]\<rparr>"

definition reply_message :: "('i, 't) Drawn \<Rightarrow> string \<Rightarrow> ('i, 't) Message" where
  "reply_message d reply =
     \<lparr>msg_ID = id_reply d, msg_Role = RoleAssistant, msg_Content = reply,
      msg_CreatedAt = now_reply_created d, msg_UpdatedAt = now_reply_updated d\<rparr>"

text \<open>\<^verbatim>\<open>StartConversation\<close> returns the response or the error, the conversation as it
  is in memory when the call returns, and the repository.\<close>

definition StartConversation ::
  "('i, 't, 'r) Server \<Rightarrow> ('i, 't) Drawn \<Rightarrow> string \<Rightarrow> 'r \<Rightarrow>
     (error + StartConversationResponse) \<times> ('i, 't) Conversation \<times> 'r" where
  "StartConversation s d message r =
     (let conversation = new_conversation d message
      in if TrimSpace message = '''' then (Inl (RequiredArgumentError ''message''), conversation, r)
         else
           (let titleResult = assist_Title (assist s) conversation;
                replyResult = assist_Reply (assist s) conversation;
                conversation =
                  (case snd titleResult of
                     Some _ \<Rightarrow> conversation
                   | None \<Rightarrow> conversation\<lparr>conv_Title := fst titleResult\<rparr>)
            in case snd replyResult of
                 Some err \<Rightarrow> (Inl err, conversation, r)
               | None \<Rightarrow>
                   (let conversation =
                          conversation\<lparr>conv_Messages := conv_Messages conversation @
                            [reply_message d (fst replyResult)]\<rparr>
                    in case CreateConversation s conversation r of
                         (Some err, r') \<Rightarrow> (Inl err, conversation, r')
                       | (None, r') \<Rightarrow>
                           (Inr \<lparr>ConversationId = Hex s (conv_ID conversation),
                                 resp_Title = conv_Title conversation,
                                 resp_Reply = fst replyResult\<rparr>, conversation, r'))))"

section \<open>Decimal numbers in text\<close>

definition digit :: "nat \<Rightarrow> char" where
  "digit d = ''0123456789'' ! (d mod 10)"

fun decimal :: "nat \<Rightarrow> string" where
  "decimal n = (if n < 10 then [digit n] else decimal (n div 10) @ [digit n])"

declare decimal.simps [simp del]

text \<open>The verb \<^verbatim>\<open>%d\<close> of \<^verbatim>\<open>fmt\<close>.\<close>

definition Itoa :: "int \<Rightarrow> string" where
  "Itoa i = (if i < 0 then ''-'' @ decimal (nat (- i)) else decimal (nat i))"

text \<open>\<^verbatim>\<open>appendInt\<close> of package \<^verbatim>\<open>time\<close>: a sign for a negative number, then at least
  \<open>width\<close> digits, padded with zeros.\<close>

definition appendInt :: "int \<Rightarrow> nat \<Rightarrow> string" where
  "appendInt x width =
     (let ds = decimal (nat \<bar>x\<bar>)
      in (if x < 0 then ''-'' else '''') @ replicate (width - length ds) (CHR ''0'') @ ds)"

section \<open>WeatherClient\<close>

text \<open>\<^verbatim>\<open>WeatherResponse\<close>. The numbers of type \<^verbatim>\<open>float64\<close> are decoded from JSON, which
  has neither NaN nor infinities, so each is a finite binary fraction and the comparisons
  of the code are those of the real numbers.\<close>

record WeatherResponse =
  Location_Name :: string
  Location_Country :: string
  TempC :: real
  IsDay :: int
  Condition_Text :: string
  WindKph :: real
  WindDir :: string
  Humidity :: int
  Cloud :: int
  FeelsLikeC :: real
  PrecipMm :: real
  UV :: real

text \<open>The client. \<open>NewRequest\<close> is \<^verbatim>\<open>http.NewRequestWithContext\<close> on the URL (an error or
  \<^verbatim>\<open>nil\<close>), \<open>Do\<close> is \<^verbatim>\<open>httpClient.Do\<close> together with the reading of the body (an error, or
  the status code and the body), \<open>Decode\<close> is the JSON decoder, \<open>Sprintf_f\<close> is the verb
  \<^verbatim>\<open>%.nf\<close> of \<^verbatim>\<open>fmt\<close> at precision \<open>n\<close>. \<open>After\<close> is the \<^verbatim>\<open>select\<close> between \<^verbatim>\<open>ctx.Done()\<close>
  and \<^verbatim>\<open>time.After(delay)\<close>: \<open>Some\<close> of \<^verbatim>\<open>ctx.Err()\<close> when the context ends first.\<close>

record 'w WeatherClient =
  apiKey :: string
  NewRequest :: "string \<Rightarrow> error option"
  Do :: "string \<Rightarrow> 'w \<Rightarrow> (error + int \<times> string) \<times> 'w"
  Decode :: "string \<Rightarrow> error + WeatherResponse"
  Sprintf_f :: "nat \<Rightarrow> real \<Rightarrow> string"
  After :: "64 word \<Rightarrow> 'w \<Rightarrow> error option \<times> 'w"

text \<open>Lines 106 to 141 of \<^verbatim>\<open>fetchWeather\<close>. The degree sign is the two bytes C2 B0.\<close>

definition degree :: string where
  "degree = [CHR 0xC2, CHR 0xB0]"

definition format_weather :: "(nat \<Rightarrow> real \<Rightarrow> string) \<Rightarrow> WeatherResponse \<Rightarrow> string" where
  "format_weather f weatherResp =
     (let timeOfDay = (if IsDay weatherResp = 0 then ''at night'' else ''during the day'');
          result =
            ''Current weather in '' @ Location_Name weatherResp @ '', '' @
              Location_Country weatherResp @ '' ('' @ timeOfDay @ ''):'' @ [CHR 0x0A] @
            ''Temperature: '' @ f 1 (TempC weatherResp) @ degree @ ''C (feels like '' @
              f 1 (FeelsLikeC weatherResp) @ degree @ ''C)'' @ [CHR 0x0A] @
            ''Conditions: '' @ Condition_Text weatherResp @ [CHR 0x0A] @
            ''Wind: '' @ f 1 (WindKph weatherResp) @ '' km/h from '' @ WindDir weatherResp @
              [CHR 0x0A] @
            ''Humidity: '' @ Itoa (Humidity weatherResp) @ ''%'' @ [CHR 0x0A] @
            ''Cloud coverage: '' @ Itoa (Cloud weatherResp) @ ''%'';
          result =
            (if PrecipMm weatherResp > 0
             then result @ [CHR 0x0A] @ ''Precipitation: '' @ f 1 (PrecipMm weatherResp) @ '' mm''
             else result);
          result =
            (if UV weatherResp > 6
             then result @ [CHR 0x0A] @ '' High UV index: '' @ f 0 (UV weatherResp) @
                    '' (use sun protection)''
             else result)
      in result)"

definition fetchWeather :: "'w WeatherClient \<Rightarrow> string \<Rightarrow> 'w \<Rightarrow> result \<times> 'w" where
  "fetchWeather c location w =
     (let url = ''http://api.weatherapi.com/v1/current.json?key='' @ apiKey c @ ''&q='' @
                  location @ ''&aqi=no''
      in case NewRequest c url of
           Some err \<Rightarrow> (('''', Some (Error (''creating request: '' @ error_text err))), w)
         | None \<Rightarrow>
             (case Do c url w of
                (Inl err, w1) \<Rightarrow> (('''', Some (Error (''making request: '' @ error_text err))), w1)
              | (Inr (status, body), w1) \<Rightarrow>
                  if status \<noteq> 200
                  then (('''', Some (Error (''API returned '' @ Itoa status @ '': '' @ body))), w1)
                  else
                    (case Decode c body of
                       Inl err \<Rightarrow>
                         (('''', Some (Error (''decoding response: '' @ error_text err))), w1)
                     | Inr weatherResp \<Rightarrow>
                         ((format_weather (Sprintf_f c) weatherResp, None), w1))))"

text \<open>\<^verbatim>\<open>time.Duration\<close> is a 64-bit integer of nanoseconds.\<close>

definition Millisecond :: "64 word" where
  "Millisecond = 1000000"

definition baseDelay :: "64 word" where
  "baseDelay = 200 * Millisecond"

definition delay :: "nat \<Rightarrow> 64 word" where
  "delay attempt = baseDelay * push_bit (attempt - 1) 1"

definition fallback :: string where
  "fallback =
     ''Unable to fetch weather data at the moment. The weather is probably fine though! '' @
     [CHR 0xF0, CHR 0x9F, CHR 0x8C, CHR 0xA4, CHR 0xEF, CHR 0xB8, CHR 0x8F]"

definition Unconfigured :: error where
  "Unconfigured = Error ''WEATHER_API_KEY not set''"

text \<open>What an observer of \<^verbatim>\<open>GetCurrentWeather\<close> sees it do: a call of \<^verbatim>\<open>fetchWeather\<close>,
  or a wait for a delay.\<close>

datatype weather_event = Attempt | Wait "64 word"

text \<open>The loop \<^verbatim>\<open>for attempt := 0; attempt < maxRetries; attempt++\<close>, with the events so
  far in \<open>evs\<close>.\<close>

function weather_loop ::
  "'w WeatherClient \<Rightarrow> string \<Rightarrow> nat \<Rightarrow> error option \<Rightarrow> weather_event list \<Rightarrow> 'w \<Rightarrow>
     result \<times> weather_event list \<times> 'w" where
  "weather_loop c location attempt lastErr evs w =
     (if attempt < 3 then
        (case (if attempt > 0 then After c (delay attempt) w else (None, w)) of
           (Some ctxErr, w1) \<Rightarrow> (('''', Some ctxErr), evs @ [Wait (delay attempt)], w1)
         | (None, w1) \<Rightarrow>
             (let evs = (if attempt > 0 then evs @ [Wait (delay attempt)] else evs)
              in case fetchWeather c location w1 of
                   ((weather, None), w2) \<Rightarrow> ((weather, None), evs @ [Attempt], w2)
                 | ((weather, Some err), w2) \<Rightarrow>
                     weather_loop c location (attempt + 1) (Some err) (evs @ [Attempt]) w2))
      else ((fallback, lastErr), evs, w))"
  by pat_completeness auto
termination
  by (relation "measure (\<lambda>(c, location, attempt, lastErr, evs, w). 3 - attempt)") auto

declare weather_loop.simps [simp del]

definition GetCurrentWeather ::
  "'w WeatherClient \<Rightarrow> string \<Rightarrow> 'w \<Rightarrow> result \<times> weather_event list \<times> 'w" where
  "GetCurrentWeather c location w =
     (if apiKey c = '''' then ((''Weather API key not configured'', Some Unconfigured), [], w)
      else weather_loop c location 0 None [] w)"

section \<open>Package time\<close>

text \<open>A \<^verbatim>\<open>time.Time\<close>: the date and the time of day on the clock of its location, and the
  offset of that location east of UTC in seconds. \<open>month\<close> is between 1 and 12.\<close>

record Time =
  year :: int
  month :: int
  day :: int
  hour :: int
  minute :: int
  second :: int
  nanosecond :: int
  offset :: int

text \<open>The number of days from 1970-01-01 to a date of the proleptic Gregorian calendar
  (counting years from March, in cycles of 400 years).\<close>

definition days_from_civil :: "int \<Rightarrow> int \<Rightarrow> int \<Rightarrow> int" where
  "days_from_civil y m d =
     (let y = (if m \<le> 2 then y - 1 else y);
          era = y div 400;
          yoe = y - era * 400;
          doy = (153 * ((m + 9) mod 12) + 2) div 5 + d - 1;
          doe = yoe * 365 + yoe div 4 - yoe div 100 + doy
      in era * 146097 + doe - 719468)"

text \<open>The instant of a time: seconds since 1970-01-01T00:00:00Z.\<close>

definition unix :: "Time \<Rightarrow> int" where
  "unix t =
     days_from_civil (year t) (month t) (day t) * 86400 +
     hour t * 3600 + minute t * 60 + second t - offset t"

definition Before :: "Time \<Rightarrow> Time \<Rightarrow> bool" where
  "Before t u = (unix t < unix u \<or> (unix t = unix u \<and> nanosecond t < nanosecond u))"

definition After_time :: "Time \<Rightarrow> Time \<Rightarrow> bool" where
  "After_time t u = (unix t > unix u \<or> (unix t = unix u \<and> nanosecond t > nanosecond u))"

text \<open>The zero value \<^verbatim>\<open>time.Time{}\<close> is January 1 of year 1, 00:00:00 UTC, and
  \<^verbatim>\<open>IsZero\<close> holds for that instant.\<close>

definition zero_Time :: Time where
  "zero_Time = \<lparr>year = 1, month = 1, day = 1, hour = 0, minute = 0, second = 0,
                nanosecond = 0, offset = 0\<rparr>"

definition IsZero :: "Time \<Rightarrow> bool" where
  "IsZero t = (unix t = unix zero_Time \<and> nanosecond t = 0)"

text \<open>\<^verbatim>\<open>t.Format(time.DateOnly)\<close>, the layout \<^verbatim>\<open>2006-01-02\<close>.\<close>

definition Format_DateOnly :: "Time \<Rightarrow> string" where
  "Format_DateOnly t =
     appendInt (year t) 4 @ ''-'' @ appendInt (month t) 2 @ ''-'' @ appendInt (day t) 2"

section \<open>HolidaysTool\<close>

text \<open>An event of the calendar (\<^verbatim>\<open>*ics.VEvent\<close>): what \<^verbatim>\<open>GetAllDayStartAt()\<close> returns,
  and the value of the property \<^verbatim>\<open>SUMMARY\<close> when the event has one
  (\<^verbatim>\<open>GetProperty\<close> returns \<^verbatim>\<open>nil\<close> otherwise).\<close>

record Event =
  AllDayStartAt :: "error + Time"
  SUMMARY :: "string option"

datatype panic = NilPointerDereference

record HolidaysArgs =
  BeforeDate :: string
  AfterDate :: string
  MaxCount :: int

text \<open>The tool. \<open>Unmarshal\<close> is \<^verbatim>\<open>json.Unmarshal\<close> into the arguments, \<open>Parse_RFC3339\<close> is
  \<^verbatim>\<open>time.Parse(time.RFC3339, _)\<close>, \<open>LoadCalendar\<close> fetches and parses the feed.\<close>

record 'w HolidaysTool =
  calendarURL :: string
  Unmarshal :: "string \<Rightarrow> error + HolidaysArgs"
  Parse_RFC3339 :: "string \<Rightarrow> error + Time"
  LoadCalendar :: "string \<Rightarrow> 'w \<Rightarrow> (error + Event list) \<times> 'w"

text \<open>The loop of lines 126 to 147, with \<open>holidays\<close> the lines collected so far. Reading
  \<^verbatim>\<open>.Value\<close> of a missing property is a nil pointer dereference.\<close>

fun holidays_loop ::
  "Event list \<Rightarrow> int \<Rightarrow> Time \<Rightarrow> Time \<Rightarrow> string list \<Rightarrow> panic + string list" where
  "holidays_loop [] maxCount beforeDate afterDate holidays = Inr holidays"
| "holidays_loop (event # events) maxCount beforeDate afterDate holidays =
     (case AllDayStartAt event of
        Inl err \<Rightarrow> holidays_loop events maxCount beforeDate afterDate holidays
      | Inr date \<Rightarrow>
          if maxCount > 0 \<and> int (length holidays) \<ge> maxCount then Inr holidays
          else if \<not> IsZero beforeDate \<and> After_time date beforeDate
            then holidays_loop events maxCount beforeDate afterDate holidays
          else if \<not> IsZero afterDate \<and> Before date afterDate
            then holidays_loop events maxCount beforeDate afterDate holidays
          else
            (case SUMMARY event of
               None \<Rightarrow> Inl NilPointerDereference
             | Some summary \<Rightarrow>
                 holidays_loop events maxCount beforeDate afterDate
                   (holidays @ [Format_DateOnly date @ '': '' @ summary])))"

text \<open>Lines 124 to 149: the loop, and its lines joined by line feeds.\<close>

definition filter_holidays :: "Event list \<Rightarrow> int \<Rightarrow> Time \<Rightarrow> Time \<Rightarrow> panic + string" where
  "filter_holidays events maxCount beforeDate afterDate =
     (case holidays_loop events maxCount beforeDate afterDate [] of
        Inl p \<Rightarrow> Inl p
      | Inr holidays \<Rightarrow> Inr (Join holidays [CHR 0x0A]))"

definition Execute_holidays ::
  "'w HolidaysTool \<Rightarrow> string \<Rightarrow> 'w \<Rightarrow> (panic + result) \<times> 'w" where
  "Execute_holidays t arguments w =
     (case Unmarshal t arguments of
        Inl err \<Rightarrow> (Inr ('''', Some (Error (''invalid arguments: '' @ error_text err))), w)
      | Inr args \<Rightarrow>
          (case (if BeforeDate args \<noteq> '''' then Parse_RFC3339 t (BeforeDate args)
                 else Inr zero_Time) of
             Inl err \<Rightarrow> (Inr ('''', Some (Error (''invalid before_date: '' @ error_text err))), w)
           | Inr beforeDate \<Rightarrow>
               (case (if AfterDate args \<noteq> '''' then Parse_RFC3339 t (AfterDate args)
                      else Inr zero_Time) of
                  Inl err \<Rightarrow>
                    (Inr ('''', Some (Error (''invalid after_date: '' @ error_text err))), w)
                | Inr afterDate \<Rightarrow>
                    (case LoadCalendar t (calendarURL t) w of
                       (Inl err, w1) \<Rightarrow> (Inr (''Failed to load holiday events'', Some err), w1)
                     | (Inr events, w1) \<Rightarrow>
                         (case filter_holidays events (MaxCount args) beforeDate afterDate of
                            Inl p \<Rightarrow> (Inl p, w1)
                          | Inr text \<Rightarrow> (Inr (text, None), w1))))))"

section \<open>Sample values\<close>

text \<open>A model that asks for three tools in every response (one that succeeds, one that
  fails and one that is not registered), in a world that counts the calls; a conversation
  of three messages, the second with a role that is neither user nor assistant.\<close>

definition demo_call :: ToolCall where
  "demo_call = \<lparr>call_ID = ''call_1'', call_Name = ''get_today_date'', call_Arguments = ''{}''\<rparr>"

definition missing_call :: ToolCall where
  "missing_call = \<lparr>call_ID = ''call_2'', call_Name = ''get_flights'', call_Arguments = ''{}''\<rparr>"

definition demo_tool :: "nat Tool" where
  "demo_tool = \<lparr>Name = ''get_today_date'', Description = ''Get today's date'',
                 Parameters = ''{}'', Execute = (\<lambda>args w. ((''2024-05-01T10:00:00Z'', None), Suc w))\<rparr>"

definition weather_call :: ToolCall where
  "weather_call = \<lparr>call_ID = ''call_3'', call_Name = ''get_weather'',
                    call_Arguments = ''{location: Barcelona}''\<rparr>"

definition failing_tool :: "nat Tool" where
  "failing_tool =
     \<lparr>Name = ''get_weather'', Description = ''Get weather at the given location'',
      Parameters = ''{}'',
      Execute = (\<lambda>args w. ((''Weather API key not configured'', Some Unconfigured), Suc w))\<rparr>"

definition demo_response :: ChatCompletionMessage where
  "demo_response = \<lparr>Content = '''', ToolCalls = [demo_call, weather_call, missing_call]\<rparr>"

definition demo_assistant :: "nat Assistant" where
  "demo_assistant =
     \<lparr>cli = (\<lambda>p w. (Inr [demo_response], Suc w)),
      tools = [(''get_today_date'', demo_tool), (''get_weather'', failing_tool)]\<rparr>"

definition demo_conversation :: "(string, nat) Conversation" where
  "demo_conversation =
     \<lparr>conv_ID = ''c1'', conv_Title = ''Untitled conversation'', conv_CreatedAt = 0,
      conv_UpdatedAt = 0,
      conv_Messages =
        [\<lparr>msg_ID = ''m1'', msg_Role = RoleUser, msg_Content = ''What day is it?'',
          msg_CreatedAt = 0, msg_UpdatedAt = 0\<rparr>,
         \<lparr>msg_ID = ''m2'', msg_Role = RoleOther ''tool'', msg_Content = ''2024-05-01'',
          msg_CreatedAt = 1, msg_UpdatedAt = 1\<rparr>,
         \<lparr>msg_ID = ''m3'', msg_Role = RoleAssistant, msg_Content = ''It is May 1.'',
          msg_CreatedAt = 2, msg_UpdatedAt = 2\<rparr>]\<rparr>"

text \<open>The values drawn by one call of \<open>StartConversation\<close>; a repository that is the list
  of the conversations created in it, and never fails; an assistant whose title fails,
  and one whose reply fails.\<close>

definition demo_drawn :: "(string, nat) Drawn" where
  "demo_drawn =
     \<lparr>id_conv = ''64a0'', now_conv_created = 100, now_conv_updated = 101,
      id_user = ''64a1'', now_user_created = 102, now_user_updated = 103,
      id_reply = ''64a2'', now_reply_created = 200, now_reply_updated = 201\<rparr>"

definition list_repository ::
  "(string, nat) Assist \<Rightarrow> (string, nat, (string, nat) Conversation list) Server" where
  "list_repository as =
     \<lparr>assist = as, CreateConversation = (\<lambda>conv r. (None, r @ [conv])), Hex = (\<lambda>i. i)\<rparr>"

definition title_fails :: "(string, nat) Assist" where
  "title_fails =
     \<lparr>assist_Title = (\<lambda>conv. ('''', Some (Error ''OpenAI quota exceeded''))),
      assist_Reply = (\<lambda>conv. (''This is the reply'', None))\<rparr>"

definition reply_fails :: "(string, nat) Assist" where
  "reply_fails =
     \<lparr>assist_Title = (\<lambda>conv. (''Some Title'', None)),
      assist_Reply = (\<lambda>conv. ('''', Some (Error ''OpenAI service unavailable'')))\<rparr>"

text \<open>A weather client whose requests are all refused; its world counts the requests and
  the waits, and the error of a request tells the count.\<close>

definition refused_client :: "nat WeatherClient" where
  "refused_client =
     \<lparr>apiKey = ''secret'', NewRequest = (\<lambda>url. None),
      Do = (\<lambda>url w. (Inl (Error (''connection refused at step '' @ decimal w)), w + 1)),
      Decode = (\<lambda>body. Inl (Error ''unexpected end of JSON input'')),
      Sprintf_f = (\<lambda>n x. ''?''),
      After = (\<lambda>d w. (None, w + 1))\<rparr>"

text \<open>Three events of 2024 at midnight UTC, and the first day of February.\<close>

definition midnight :: "int \<Rightarrow> int \<Rightarrow> int \<Rightarrow> Time" where
  "midnight y m d = \<lparr>year = y, month = m, day = d, hour = 0, minute = 0, second = 0,
                      nanosecond = 0, offset = 0\<rparr>"

definition demo_events :: "Event list" where
  "demo_events =
     [\<lparr>AllDayStartAt = Inr (midnight 2024 1 1), SUMMARY = Some ''New Year''\<rparr>,
      \<lparr>AllDayStartAt = Inr (midnight 2024 6 15), SUMMARY = Some ''Summer Fair''\<rparr>,
      \<lparr>AllDayStartAt = Inr (midnight 2024 12 25), SUMMARY = Some ''Christmas''\<rparr>]"

text \<open>A weather report with no rain and a high UV index, and a rendering of its numbers.\<close>

definition demo_Sprintf :: "nat \<Rightarrow> real \<Rightarrow> string" where
  "demo_Sprintf n x =
     (if n = 0 then ''8''
      else if x = 18.5 then ''18.5'' else if x = 17 then ''17.0'' else ''11.2'')"

definition clear_day :: WeatherResponse where
  "clear_day =
     \<lparr>Location_Name = ''Barcelona'', Location_Country = ''Spain'', TempC = 18.5, IsDay = 1,
      Condition_Text = ''Sunny'', WindKph = 11.2, WindDir = ''NE'', Humidity = 60, Cloud = 0,
      FeelsLikeC = 17, PrecipMm = 0, UV = 8\<rparr>"

text \<open>A title of 82 characters in 163 bytes, and a conversation with no message.\<close>

definition e_acute :: string where
  "e_acute = [CHR 0xC3, CHR 0xA9]"

definition accented_title :: string where
  "accented_title = ''a'' @ concat (replicate 81 e_acute)"

definition empty_conversation :: "(string, nat) Conversation" where
  "empty_conversation =
     \<lparr>conv_ID = ''c0'', conv_Title = ''Untitled conversation'', conv_CreatedAt = 0,
      conv_UpdatedAt = 0, conv_Messages = []\<rparr>"

text \<open>A model that asks for the three tools in the world 0 and answers in free text
  afterwards.\<close>

definition final_response :: ChatCompletionMessage where
  "final_response = \<lparr>Content = ''I could not get the weather.'', ToolCalls = []\<rparr>"

definition recovering_assistant :: "nat Assistant" where
  "recovering_assistant =
     \<lparr>cli = (\<lambda>p w. if w = 0 then (Inr [demo_response], 1) else (Inr [final_response], w + 1)),
      tools = [(''get_today_date'', demo_tool), (''get_weather'', failing_tool)]\<rparr>"

text \<open>A feed whose second event has a date and no summary, and a tool that is given no
  bound and no cap and loads that feed.\<close>

definition nosummary_feed :: "Event list" where
  "nosummary_feed =
     [\<lparr>AllDayStartAt = Inr (midnight 2024 1 1), SUMMARY = Some ''New Year''\<rparr>,
      \<lparr>AllDayStartAt = Inr (midnight 2024 6 15), SUMMARY = None\<rparr>]"

definition nosummary_tool :: "nat HolidaysTool" where
  "nosummary_tool =
     \<lparr>calendarURL = ''https://www.officeholidays.com/ics/spain/catalonia'',
      Unmarshal = (\<lambda>arguments. Inr \<lparr>BeforeDate = '''', AfterDate = '''', MaxCount = 0\<rparr>),
      Parse_RFC3339 = (\<lambda>value. Inl (Error ''cannot parse'')),
      LoadCalendar = (\<lambda>url w. (Inr nosummary_feed, w + 1))\<rparr>"

section \<open>Properties of Assistant.Reply\<close>

lemma seed_turns_acc:
  "seed_turns ms msgs = msgs @ seed_turns ms []"
proof (induction ms arbitrary: msgs)
  case Nil
  show ?case by simp
next
  case (Cons m ms)
  have step: "\<And>t. seed_turns ms (msgs @ [t]) = msgs @ seed_turns ms [t]"
    using Cons.IH [of "msgs @ [t]" for t] Cons.IH [of "[t]" for t] by simp
  show ?case
    by (cases "msg_Role m") (simp_all add: step Cons.IH [of msgs])
qed

lemma seed_turns_filter:
  "seed_turns ms [] =
     map (\<lambda>m. if msg_Role m = RoleUser then UserMessage (msg_Content m)
               else AssistantMessage (msg_Content m))
       (filter (\<lambda>m. msg_Role m = RoleUser \<or> msg_Role m = RoleAssistant) ms)"
proof (induction ms)
  case Nil
  show ?case by simp
next
  case (Cons m ms)
  show ?case
    by (cases "msg_Role m") (simp_all add: Cons.IH seed_turns_acc [of ms "[t]" for t])
qed

lemma seed_turns_system:
  "seed_turns ms [SystemMessage system_preamble] =
     SystemMessage system_preamble #
       map (\<lambda>m. if msg_Role m = RoleUser then UserMessage (msg_Content m)
                 else AssistantMessage (msg_Content m))
         (filter (\<lambda>m. msg_Role m = RoleUser \<or> msg_Role m = RoleAssistant) ms)"
proof -
  have "seed_turns ms [SystemMessage system_preamble] =
          [SystemMessage system_preamble] @ seed_turns ms []"
    by (rule seed_turns_acc)
  then show ?thesis
    by (simp only: seed_turns_filter append_Cons append_Nil)
qed

text \<open>Claim C10. The turn sequence that \<open>Reply\<close> seeds from a conversation is the system
  preamble followed by one turn for every message whose role is user or assistant, in the
  order of the messages: a user turn for a user message, an assistant turn for an assistant
  message, each with the content of the message. A message with any other role adds no
  turn and is no error: on a conversation with at least one message, \<open>Reply\<close> enters its
  loop with exactly this sequence.\<close>

theorem Reply_seeds_turns:
  "seed_turns ms [SystemMessage system_preamble] =
     SystemMessage system_preamble #
       map (\<lambda>m. if msg_Role m = RoleUser then UserMessage (msg_Content m)
                 else AssistantMessage (msg_Content m))
         (filter (\<lambda>m. msg_Role m = RoleUser \<or> msg_Role m = RoleAssistant) ms)
   \<and> (conv_Messages conv \<noteq> [] \<longrightarrow>
        Reply a conv w =
          reply_loop a 0
            (SystemMessage system_preamble #
               map (\<lambda>m. if msg_Role m = RoleUser then UserMessage (msg_Content m)
                         else AssistantMessage (msg_Content m))
                 (filter (\<lambda>m. msg_Role m = RoleUser \<or> msg_Role m = RoleAssistant)
                    (conv_Messages conv))) [] w)"
  by (simp only: seed_turns_system Reply_def) simp

theorem Reply_seeds_turns_witness:
  "conv_Messages demo_conversation \<noteq> [] \<and>
   seed_turns (conv_Messages demo_conversation) [SystemMessage system_preamble] =
     [SystemMessage system_preamble, UserMessage ''What day is it?'',
      AssistantMessage ''It is May 1.''] \<and>
   Reply demo_assistant demo_conversation 0 =
     reply_loop demo_assistant 0
       [SystemMessage system_preamble, UserMessage ''What day is it?'',
        AssistantMessage ''It is May 1.''] [] 0"
  using Reply_seeds_turns [of "conv_Messages demo_conversation" demo_conversation
      demo_assistant 0]
  by (simp add: demo_conversation_def)

lemma reply_loop_tool_step:
  assumes "i < 15"
    and "cli a \<lparr>Model = ChatModelGPT4_1, Messages = msgs, Tools = toolDefinitions a\<rparr> w
           = (Inr (m # rest), w1)"
    and "ToolCalls m \<noteq> []"
  shows "reply_loop a i msgs sent w =
           reply_loop a (Suc i) (fst (dispatch_calls a (ToolCalls m) (msgs @ [ToParam m]) w1))
             (sent @ [msgs]) (snd (dispatch_calls a (ToolCalls m) (msgs @ [ToParam m]) w1))"
  using assms by (subst reply_loop.simps) (simp add: case_prod_beta)

lemma reply_loop_rounds:
  assumes always: "\<forall>p w. \<exists>m rest w'. cli a p w = (Inr (m # rest), w') \<and> ToolCalls m \<noteq> []"
  shows "15 - i = n \<Longrightarrow> i \<le> 15 \<Longrightarrow>
         reply_loop a i msgs sent w =
           (('''', Some LoopExhausted),
            sent @ map (\<lambda>k. fst ((tool_round a ^^ k) (msgs, w))) [0..<n],
            snd ((tool_round a ^^ n) (msgs, w)))"
proof (induction n arbitrary: i msgs sent w)
  case 0
  then have "i = 15" by simp
  then show ?case by (subst reply_loop.simps) simp
next
  case (Suc n)
  then have lt: "i < 15" by simp
  from always obtain m rest w1 where
    c: "cli a \<lparr>Model = ChatModelGPT4_1, Messages = msgs, Tools = toolDefinitions a\<rparr> w
          = (Inr (m # rest), w1)" and t: "ToolCalls m \<noteq> []"
    by blast
  obtain msgs' w2 where d: "dispatch_calls a (ToolCalls m) (msgs @ [ToParam m]) w1 = (msgs', w2)"
    by (metis surj_pair)
  have r: "tool_round a (msgs, w) = (msgs', w2)"
    using c d by (simp add: tool_round_def)
  have pow: "(tool_round a ^^ k) (msgs', w2) = (tool_round a ^^ Suc k) (msgs, w)" for k
    using r by (simp add: funpow_swap1)
  have idx: "[0..<Suc n] = 0 # map Suc [0..<n]"
    by (simp add: upt_conv_Cons map_Suc_upt del: upt_Suc)
  have "15 - Suc i = n" "Suc i \<le> 15" using Suc.prems by simp_all
  from Suc.IH [OF this, of msgs' "sent @ [msgs]" w2]
  have "reply_loop a (Suc i) msgs' (sent @ [msgs]) w2 =
          (('''', Some LoopExhausted),
           (sent @ [msgs]) @ map (\<lambda>k. fst ((tool_round a ^^ Suc k) (msgs, w))) [0..<n],
           snd ((tool_round a ^^ Suc n) (msgs, w)))"
    by (simp only: pow)
  moreover have "reply_loop a i msgs sent w = reply_loop a (Suc i) msgs' (sent @ [msgs]) w2"
    using reply_loop_tool_step [OF lt c t] d by simp
  ultimately show ?case
    by (simp only: idx) (simp add: comp_def)
qed

text \<open>Claim C1. When every response of the model has a first choice with at least one
  tool call, \<open>Reply\<close> on a conversation with at least one message fails with
  \<open>LoopExhausted\<close> and an empty text, never with an answer in free text, after exactly 15
  model calls: the turn sequences it has sent are those at the start of rounds 0 to 14
  from the seeded sequence, and the world it leaves is the one after 15 rounds, each of
  which calls the model once. There is no 16th call.\<close>

theorem Reply_loop_exhausted:
  assumes "\<forall>p w. \<exists>m rest w'. cli a p w = (Inr (m # rest), w') \<and> ToolCalls m \<noteq> []"
    and "conv_Messages conv \<noteq> []"
  shows "Reply a conv w =
           (('''', Some LoopExhausted),
            map (\<lambda>k. fst ((tool_round a ^^ k)
                   (seed_turns (conv_Messages conv) [SystemMessage system_preamble], w))) [0..<15],
            snd ((tool_round a ^^ 15)
                   (seed_turns (conv_Messages conv) [SystemMessage system_preamble], w)))
         \<and> length (fst (snd (Reply a conv w))) = 15"
proof -
  have "Reply a conv w =
           (('''', Some LoopExhausted),
            map (\<lambda>k. fst ((tool_round a ^^ k)
                   (seed_turns (conv_Messages conv) [SystemMessage system_preamble], w))) [0..<15],
            snd ((tool_round a ^^ 15)
                   (seed_turns (conv_Messages conv) [SystemMessage system_preamble], w)))"
    using reply_loop_rounds [OF assms(1), of 0 15 _ "[]" w] assms(2)
    by (simp add: Reply_def)
  then show ?thesis by simp
qed

theorem Reply_loop_exhausted_witness:
  "conv_Messages demo_conversation \<noteq> [] \<and>
   fst (Reply demo_assistant demo_conversation 0) = ('''', Some LoopExhausted) \<and>
   length (fst (snd (Reply demo_assistant demo_conversation 0))) = 15 \<and>
   map length (fst (snd (Reply demo_assistant demo_conversation 0))) =
     [3, 7, 11, 15, 19, 23, 27, 31, 35, 39, 43, 47, 51, 55, 59] \<and>
   snd (snd (Reply demo_assistant demo_conversation 0)) = 45"
proof -
  have always: "\<forall>p w. \<exists>m rest w'. cli demo_assistant p w = (Inr (m # rest), w') \<and> ToolCalls m \<noteq> []"
    by (simp add: demo_assistant_def demo_response_def)
  have ne: "conv_Messages demo_conversation \<noteq> []"
    by (simp add: demo_conversation_def)
  let ?seed = "seed_turns (conv_Messages demo_conversation) [SystemMessage system_preamble]"
  have world: "snd ((tool_round demo_assistant ^^ 15) (?seed, 0)) = 45"
    by code_simp
  have lens: "map length (map (\<lambda>k. fst ((tool_round demo_assistant ^^ k) (?seed, 0))) [0..<15]) =
      [3, 7, 11, 15, 19, 23, 27, 31, 35, 39, 43, 47, 51, 55, 59]"
    by code_simp
  from Reply_loop_exhausted [OF always ne, of 0]
  have r: "Reply demo_assistant demo_conversation 0 =
           (('''', Some LoopExhausted),
            map (\<lambda>k. fst ((tool_round demo_assistant ^^ k) (?seed, 0))) [0..<15],
            snd ((tool_round demo_assistant ^^ 15) (?seed, 0)))"
    and l: "length (fst (snd (Reply demo_assistant demo_conversation 0))) = 15"
    by blast+
  show ?thesis
    by (simp only: r fst_conv snd_conv world lens ne length_map length_upt) simp
qed

lemma dispatch_calls_append:
  "dispatch_calls a (xs @ ys) msgs w =
     (case dispatch_calls a xs msgs w of (msgs1, w1) \<Rightarrow> dispatch_calls a ys msgs1 w1)"
  by (induction xs arbitrary: msgs w) (auto split: prod.splits)

lemma dispatch_calls_turns:
  "\<exists>results w'. length results = length calls \<and>
     dispatch_calls a calls msgs w =
       (msgs @ map2 (\<lambda>call r. ToolMessage r (call_ID call)) calls results, w')"
proof (induction calls arbitrary: msgs w)
  case Nil
  show ?case by simp
next
  case (Cons call calls)
  obtain r err w1 where ex: "executeTool a (call_Name call) (call_Arguments call) w = ((r, err), w1)"
    by (metis surj_pair)
  define r' where "r' = (case err of Some e \<Rightarrow> ''Tool execution failed: '' @ error_text e | None \<Rightarrow> r)"
  from Cons.IH [of "msgs @ [ToolMessage r' (call_ID call)]" w1]
  obtain results w' where len: "length results = length calls"
    and d: "dispatch_calls a calls (msgs @ [ToolMessage r' (call_ID call)]) w1 =
       ((msgs @ [ToolMessage r' (call_ID call)]) @
          map2 (\<lambda>call r. ToolMessage r (call_ID call)) calls results, w')"
    by blast
  have "length (r' # results) = length (call # calls)" using len by simp
  moreover have "dispatch_calls a (call # calls) msgs w =
       (msgs @ map2 (\<lambda>call r. ToolMessage r (call_ID call)) (call # calls) (r' # results), w')"
    using ex d by (simp add: r'_def)
  ultimately show ?case by blast
qed

lemma reply_loop_sent_prefix:
  "\<exists>later. fst (snd (reply_loop a i msgs sent w)) = sent @ later"
proof (induction a i msgs sent w rule: reply_loop.induct)
  case (1 a i msgs sent w)
  show ?case
  proof (cases "i < 15")
    case False
    then show ?thesis by (subst reply_loop.simps) simp
  next
    case lt: True
    obtain res w1 where c:
      "cli a \<lparr>Model = ChatModelGPT4_1, Messages = msgs, Tools = toolDefinitions a\<rparr> w = (res, w1)"
      by (metis surj_pair)
    show ?thesis
    proof (cases res)
      case (Inl err)
      with lt c show ?thesis by (subst reply_loop.simps) simp
    next
      case (Inr choices)
      show ?thesis
      proof (cases choices)
        case Nil
        with lt c Inr show ?thesis by (subst reply_loop.simps) simp
      next
        case (Cons m rest)
        show ?thesis
        proof (cases "ToolCalls m = []")
          case True
          with lt c Inr Cons show ?thesis by (subst reply_loop.simps) simp
        next
          case False
          obtain msgs' w2 where d:
            "dispatch_calls a (ToolCalls m) (msgs @ [ToParam m]) w1 = (msgs', w2)"
            by (metis surj_pair)
          have "0 < length (ToolCalls m)" using False by simp
          from "1.IH" [OF lt c [symmetric] Inr Cons this d [symmetric]]
          obtain later where
            "fst (snd (reply_loop a (i + 1) msgs' (sent @ [msgs]) w2)) = (sent @ [msgs]) @ later"
            by blast
          with lt c Inr Cons False d show ?thesis
            by (subst reply_loop.simps) simp
        qed
      qed
    qed
  qed
qed

lemma reply_loop_tool_step':
  assumes "i < 15"
    and "cli a \<lparr>Model = ChatModelGPT4_1, Messages = msgs, Tools = toolDefinitions a\<rparr> w
           = (Inr (m # rest), w1)"
    and "ToolCalls m \<noteq> []"
    and "dispatch_calls a (ToolCalls m) (msgs @ [ToParam m]) w1 = (msgs', w2)"
  shows "reply_loop a i msgs sent w = reply_loop a (Suc i) msgs' (sent @ [msgs]) w2"
  using reply_loop_tool_step [OF assms(1-3)] assms(4) by simp

lemma reply_loop_first_call:
  assumes "i < 15"
  shows "\<exists>later. fst (snd (reply_loop a i msgs sent w)) = sent @ [msgs] @ later"
proof -
  obtain res w1 where c:
    "cli a \<lparr>Model = ChatModelGPT4_1, Messages = msgs, Tools = toolDefinitions a\<rparr> w = (res, w1)"
    by (metis surj_pair)
  show ?thesis
  proof (cases res)
    case (Inl err)
    with assms c show ?thesis by (subst reply_loop.simps) simp
  next
    case (Inr choices)
    show ?thesis
    proof (cases choices)
      case Nil
      with assms c Inr show ?thesis by (subst reply_loop.simps) simp
    next
      case (Cons m rest)
      show ?thesis
      proof (cases "ToolCalls m = []")
        case True
        with assms c Inr Cons show ?thesis by (subst reply_loop.simps) simp
      next
        case False
        obtain msgs' w2 where d:
          "dispatch_calls a (ToolCalls m) (msgs @ [ToParam m]) w1 = (msgs', w2)"
          by (metis surj_pair)
        from reply_loop_sent_prefix [of a "Suc i" msgs' "sent @ [msgs]" w2]
        obtain later where
          "fst (snd (reply_loop a (Suc i) msgs' (sent @ [msgs]) w2)) = (sent @ [msgs]) @ later"
          by blast
        then show ?thesis
          using reply_loop_tool_step' [OF assms c [unfolded Inr Cons] False d] by simp
      qed
    qed
  qed
qed

text \<open>Claim C2. In an iteration of the loop of \<open>Reply\<close> whose response has a first choice
  \<open>m\<close> with one or more tool calls, the turn of the model (\<open>ToParam m\<close>) is appended to the
  turn sequence first, then one tool message for each tool call, in the order of the calls
  and each with the identifier of its call; the loop goes on to its next iteration with
  that sequence, and when that iteration is within the bound, the next model call is made
  with it.\<close>

theorem Reply_appends_tool_turns:
  assumes "i < 15"
    and "cli a \<lparr>Model = ChatModelGPT4_1, Messages = msgs, Tools = toolDefinitions a\<rparr> w
           = (Inr (m # rest), w1)"
    and "ToolCalls m \<noteq> []"
  shows "\<exists>results w2.
           length results = length (ToolCalls m) \<and>
           dispatch_calls a (ToolCalls m) (msgs @ [ToParam m]) w1 =
             (msgs @ [ToParam m] @
                map2 (\<lambda>call r. ToolMessage r (call_ID call)) (ToolCalls m) results, w2) \<and>
           reply_loop a i msgs sent w =
             reply_loop a (Suc i)
               (msgs @ [ToParam m] @
                  map2 (\<lambda>call r. ToolMessage r (call_ID call)) (ToolCalls m) results)
               (sent @ [msgs]) w2 \<and>
           (Suc i < 15 \<longrightarrow>
              (\<exists>later. fst (snd (reply_loop a i msgs sent w)) =
                 sent @ [msgs, msgs @ [ToParam m] @
                   map2 (\<lambda>call r. ToolMessage r (call_ID call)) (ToolCalls m) results] @ later))"
proof -
  from dispatch_calls_turns [of "ToolCalls m" a "msgs @ [ToParam m]" w1]
  obtain results w2 where len: "length results = length (ToolCalls m)"
    and d: "dispatch_calls a (ToolCalls m) (msgs @ [ToParam m]) w1 =
             (msgs @ [ToParam m] @
                map2 (\<lambda>call r. ToolMessage r (call_ID call)) (ToolCalls m) results, w2)"
    by auto
  let ?msgs' = "msgs @ [ToParam m] @
                map2 (\<lambda>call r. ToolMessage r (call_ID call)) (ToolCalls m) results"
  have step: "reply_loop a i msgs sent w = reply_loop a (Suc i) ?msgs' (sent @ [msgs]) w2"
    by (rule reply_loop_tool_step' [OF assms d])
  have "\<exists>later. fst (snd (reply_loop a i msgs sent w)) = sent @ [msgs, ?msgs'] @ later"
    if "Suc i < 15"
    using reply_loop_first_call [OF that, of a ?msgs' "sent @ [msgs]" w2] step by simp
  with len d step show ?thesis by blast
qed

theorem Reply_appends_tool_turns_witness:
  "(0::nat) < 15 \<and>
   cli demo_assistant
     \<lparr>Model = ChatModelGPT4_1, Messages = [UserMessage ''Which day?''],
      Tools = toolDefinitions demo_assistant\<rparr> 0 = (Inr [demo_response], 1) \<and>
   ToolCalls demo_response \<noteq> [] \<and>
   reply_loop demo_assistant 0 [UserMessage ''Which day?''] [] 0 =
     reply_loop demo_assistant 1
       [UserMessage ''Which day?'', ToParam demo_response,
        ToolMessage ''2024-05-01T10:00:00Z'' ''call_1'',
        ToolMessage ''Tool execution failed: WEATHER_API_KEY not set'' ''call_3'',
        ToolMessage ''Tool execution failed: unknown tool: get_flights'' ''call_2'']
       [[UserMessage ''Which day?'']] 3"
proof -
  have c: "cli demo_assistant
     \<lparr>Model = ChatModelGPT4_1, Messages = [UserMessage ''Which day?''],
      Tools = toolDefinitions demo_assistant\<rparr> 0 = (Inr (demo_response # []), 1)"
    by (simp add: demo_assistant_def)
  have t: "ToolCalls demo_response \<noteq> []"
    by (simp add: demo_response_def)
  have d: "dispatch_calls demo_assistant (ToolCalls demo_response)
             ([UserMessage ''Which day?''] @ [ToParam demo_response]) 1 =
           ([UserMessage ''Which day?'', ToParam demo_response,
             ToolMessage ''2024-05-01T10:00:00Z'' ''call_1'',
             ToolMessage ''Tool execution failed: WEATHER_API_KEY not set'' ''call_3'',
             ToolMessage ''Tool execution failed: unknown tool: get_flights'' ''call_2''], 3)"
    by (simp add: demo_response_def demo_call_def weather_call_def missing_call_def
        demo_assistant_def executeTool_def demo_tool_def failing_tool_def ToolNotFound_def
        Unconfigured_def)
  have lt: "(0::nat) < 15" by simp
  from Reply_appends_tool_turns [OF lt c t, of "[]"] d c t show ?thesis
    by auto
qed

lemma reply_loop_answer:
  assumes "i < 15"
    and "cli a \<lparr>Model = ChatModelGPT4_1, Messages = msgs, Tools = toolDefinitions a\<rparr> w
           = (Inr (m # rest), w1)"
    and "ToolCalls m = []"
  shows "reply_loop a i msgs sent w = ((Content m, None), sent @ [msgs], w1)"
  using assms by (subst reply_loop.simps) simp

text \<open>Claim C3. When the execution of a tool call of a response returns an error, \<open>Reply\<close>
  does not fail: the dispatch of the calls of that response gives, for that call, a tool
  message with the text \<^verbatim>\<open>Tool execution failed: \<close> followed by the text of the error; the
  calls after it are run and the loop goes on to its next iteration with these turns. When
  the model, called on them within the bound, answers in free text, the loop returns that
  answer and no error, and so does \<open>Reply\<close> when this was its first iteration. A call that
  names a tool absent from the registry is such a call: \<open>executeTool\<close> returns the error
  \<^verbatim>\<open>unknown tool: \<close> followed by the name.\<close>

theorem tool_failure_becomes_a_turn:
  assumes "i < 15"
    and "cli a \<lparr>Model = ChatModelGPT4_1, Messages = msgs, Tools = toolDefinitions a\<rparr> w
           = (Inr (m # rest), w1)"
    and "ToolCalls m = pre @ call # post"
    and "dispatch_calls a pre (msgs @ [ToParam m]) w1 = (msgs1, w2)"
    and "executeTool a (call_Name call) (call_Arguments call) w2 = ((r, Some e), w3)"
  shows "\<exists>later w4.
           length later = length post \<and>
           dispatch_calls a (ToolCalls m) (msgs @ [ToParam m]) w1 =
             (msgs1 @ [ToolMessage (''Tool execution failed: '' @ error_text e) (call_ID call)] @
                later, w4) \<and>
           dispatch_calls a post
               (msgs1 @ [ToolMessage (''Tool execution failed: '' @ error_text e) (call_ID call)]) w3 =
             (msgs1 @ [ToolMessage (''Tool execution failed: '' @ error_text e) (call_ID call)] @
                later, w4) \<and>
           reply_loop a i msgs sent w =
             reply_loop a (Suc i)
               (msgs1 @ [ToolMessage (''Tool execution failed: '' @ error_text e) (call_ID call)] @
                  later)
               (sent @ [msgs]) w4 \<and>
           (\<forall>m2 rest2 w5.
              Suc i < 15 \<and>
              cli a \<lparr>Model = ChatModelGPT4_1,
                     Messages = msgs1 @
                       [ToolMessage (''Tool execution failed: '' @ error_text e) (call_ID call)] @
                       later,
                     Tools = toolDefinitions a\<rparr> w4 = (Inr (m2 # rest2), w5) \<and>
              ToolCalls m2 = [] \<longrightarrow>
                reply_loop a i msgs sent w =
                  ((Content m2, None),
                   sent @ [msgs, msgs1 @
                     [ToolMessage (''Tool execution failed: '' @ error_text e) (call_ID call)] @
                     later], w5) \<and>
                (i = 0 \<and> sent = [] \<and> conv_Messages conv \<noteq> [] \<and>
                 msgs = seed_turns (conv_Messages conv) [SystemMessage system_preamble] \<longrightarrow>
                   Reply a conv w =
                     ((Content m2, None),
                      [msgs, msgs1 @
                        [ToolMessage (''Tool execution failed: '' @ error_text e) (call_ID call)] @
                        later], w5))) \<and>
           (\<forall>name args w'. map_of (tools a) name = None \<longrightarrow>
              executeTool a name args w' = (('''', Some (Error (''unknown tool: '' @ name))), w'))"
proof -
  let ?t = "ToolMessage (''Tool execution failed: '' @ error_text e) (call_ID call)"
  from dispatch_calls_turns [of post a "msgs1 @ [?t]" w3]
  obtain results w4 where len: "length results = length post"
    and d: "dispatch_calls a post (msgs1 @ [?t]) w3 =
              ((msgs1 @ [?t]) @ map2 (\<lambda>call r. ToolMessage r (call_ID call)) post results, w4)"
    by blast
  let ?later = "map2 (\<lambda>call r. ToolMessage r (call_ID call)) post results"
  let ?msgs2 = "msgs1 @ [?t] @ ?later"
  have d': "dispatch_calls a post (msgs1 @ [?t]) w3 = (?msgs2, w4)"
    using d by simp
  have "dispatch_calls a (call # post) msgs1 w2 = (?msgs2, w4)"
    using assms(5) d by simp
  then have all: "dispatch_calls a (ToolCalls m) (msgs @ [ToParam m]) w1 = (?msgs2, w4)"
    using assms(3,4) by (simp add: dispatch_calls_append)
  have ne: "ToolCalls m \<noteq> []" using assms(3) by simp
  have step: "reply_loop a i msgs sent w = reply_loop a (Suc i) ?msgs2 (sent @ [msgs]) w4"
    by (rule reply_loop_tool_step' [OF assms(1,2) ne all])
  have answer: "reply_loop a i msgs sent w = ((Content m2, None), sent @ [msgs, ?msgs2], w5)"
    if "Suc i < 15"
      and "cli a \<lparr>Model = ChatModelGPT4_1, Messages = ?msgs2, Tools = toolDefinitions a\<rparr> w4
             = (Inr (m2 # rest2), w5)"
      and "ToolCalls m2 = []" for m2 rest2 w5
    using reply_loop_answer [OF that, of "sent @ [msgs]"] step by simp
  have top: "Reply a conv w = ((Content m2, None), [msgs, ?msgs2], w5)"
    if "Suc i < 15"
      and "cli a \<lparr>Model = ChatModelGPT4_1, Messages = ?msgs2, Tools = toolDefinitions a\<rparr> w4
             = (Inr (m2 # rest2), w5)"
      and "ToolCalls m2 = []"
      and "i = 0" "sent = []" "conv_Messages conv \<noteq> []"
      and "msgs = seed_turns (conv_Messages conv) [SystemMessage system_preamble]"
    for m2 rest2 w5
    using answer [OF that(1-3)] that(4-7) by (simp add: Reply_def)
  have unknown: "\<forall>name args w'. map_of (tools a) name = None \<longrightarrow>
      executeTool a name args w' = (('''', Some (Error (''unknown tool: '' @ name))), w')"
    by (simp add: executeTool_def ToolNotFound_def)
  have l: "length ?later = length post" using len by simp
  show ?thesis
    apply (rule exI [of _ ?later], rule exI [of _ w4])
    using l all d' step answer top unknown by blast
qed

theorem tool_failure_becomes_a_turn_witness:
  "(0::nat) < 15 \<and>
   executeTool recovering_assistant (call_Name weather_call) (call_Arguments weather_call) 2 =
     ((''Weather API key not configured'', Some Unconfigured), 3) \<and>
   executeTool recovering_assistant (call_Name missing_call) (call_Arguments missing_call) 3 =
     (('''', Some (Error ''unknown tool: get_flights'')), 3) \<and>
   Reply recovering_assistant demo_conversation 0 =
     ((''I could not get the weather.'', None),
      [[SystemMessage system_preamble, UserMessage ''What day is it?'',
        AssistantMessage ''It is May 1.''],
       [SystemMessage system_preamble, UserMessage ''What day is it?'',
        AssistantMessage ''It is May 1.'', ToParam demo_response,
        ToolMessage ''2024-05-01T10:00:00Z'' ''call_1'',
        ToolMessage ''Tool execution failed: WEATHER_API_KEY not set'' ''call_3'',
        ToolMessage ''Tool execution failed: unknown tool: get_flights'' ''call_2'']],
      4)"
proof -
  let ?seed = "[SystemMessage system_preamble, UserMessage ''What day is it?'',
                AssistantMessage ''It is May 1.'']"
  let ?msgs1 = "?seed @ [ToParam demo_response, ToolMessage ''2024-05-01T10:00:00Z'' ''call_1'']"
  let ?fail = "ToolMessage (''Tool execution failed: '' @ error_text Unconfigured)
                 (call_ID weather_call)"
  have lt: "(0::nat) < 15" by simp
  have seed: "seed_turns (conv_Messages demo_conversation) [SystemMessage system_preamble] = ?seed"
    by (simp add: demo_conversation_def)
  have ne: "conv_Messages demo_conversation \<noteq> []"
    by (simp add: demo_conversation_def)
  have c: "cli recovering_assistant
     \<lparr>Model = ChatModelGPT4_1, Messages = ?seed,
      Tools = toolDefinitions recovering_assistant\<rparr> 0 = (Inr (demo_response # []), 1)"
    by (simp add: recovering_assistant_def)
  have split: "ToolCalls demo_response = [demo_call] @ weather_call # [missing_call]"
    by (simp add: demo_response_def)
  have pre: "dispatch_calls recovering_assistant [demo_call] (?seed @ [ToParam demo_response]) 1 =
      (?msgs1, 2)"
    by (simp add: demo_call_def recovering_assistant_def executeTool_def demo_tool_def)
  have ex: "executeTool recovering_assistant (call_Name weather_call) (call_Arguments weather_call) 2 =
     ((''Weather API key not configured'', Some Unconfigured), 3)"
    by (simp add: weather_call_def recovering_assistant_def executeTool_def failing_tool_def)
  have un: "executeTool recovering_assistant (call_Name missing_call) (call_Arguments missing_call) 3 =
     (('''', Some (Error ''unknown tool: get_flights'')), 3)"
    by (simp add: missing_call_def recovering_assistant_def executeTool_def ToolNotFound_def)
  have post: "dispatch_calls recovering_assistant [missing_call] (?msgs1 @ [?fail]) 3 =
      (?msgs1 @ [?fail] @ [ToolMessage ''Tool execution failed: unknown tool: get_flights'' ''call_2''],
       3)"
    using un by (simp add: missing_call_def)
  from tool_failure_becomes_a_turn [OF lt c split pre ex, of "[]" demo_conversation]
  obtain later w4 where
    d: "dispatch_calls recovering_assistant [missing_call] (?msgs1 @ [?fail]) 3 =
          (?msgs1 @ [?fail] @ later, w4)"
    and answer: "\<forall>m2 rest2 w5.
        Suc 0 < 15 \<and>
        cli recovering_assistant
          \<lparr>Model = ChatModelGPT4_1, Messages = ?msgs1 @ [?fail] @ later,
           Tools = toolDefinitions recovering_assistant\<rparr> w4 = (Inr (m2 # rest2), w5) \<and>
        ToolCalls m2 = [] \<longrightarrow>
          reply_loop recovering_assistant 0 ?seed [] 0 =
            ((Content m2, None), [] @ [?seed, ?msgs1 @ [?fail] @ later], w5) \<and>
          ((0::nat) = 0 \<and> ([]::turn list list) = [] \<and> conv_Messages demo_conversation \<noteq> [] \<and>
           ?seed = seed_turns (conv_Messages demo_conversation) [SystemMessage system_preamble] \<longrightarrow>
             Reply recovering_assistant demo_conversation 0 =
               ((Content m2, None), [?seed, ?msgs1 @ [?fail] @ later], w5))"
    by blast
  from d post have later: "later = [ToolMessage ''Tool execution failed: unknown tool: get_flights'' ''call_2'']"
    and w4: "w4 = 3"
    by simp_all
  have c2: "cli recovering_assistant
          \<lparr>Model = ChatModelGPT4_1, Messages = ?msgs1 @ [?fail] @ later,
           Tools = toolDefinitions recovering_assistant\<rparr> w4 = (Inr (final_response # []), 4)"
    by (simp add: recovering_assistant_def w4)
  have f: "ToolCalls final_response = []" "Content final_response = ''I could not get the weather.''"
    by (simp_all add: final_response_def)
  from answer [rule_format, of final_response "[]" 4] c2 f(1) ne seed
  have "Reply recovering_assistant demo_conversation 0 =
          ((Content final_response, None), [?seed, ?msgs1 @ [?fail] @ later], 4)"
    by simp
  then have "Reply recovering_assistant demo_conversation 0 =
     ((''I could not get the weather.'', None),
      [?seed,
       ?seed @ [ToParam demo_response,
        ToolMessage ''2024-05-01T10:00:00Z'' ''call_1'',
        ToolMessage ''Tool execution failed: WEATHER_API_KEY not set'' ''call_3'',
        ToolMessage ''Tool execution failed: unknown tool: get_flights'' ''call_2'']],
      4)"
    by (simp add: f later Unconfigured_def weather_call_def)
  with lt ex un show ?thesis by simp
qed

section \<open>Properties of Server.StartConversation\<close>

lemma lead_width_Nil [simp]: "lead_width rs [] = 0"
  using lead_width_less [of rs "[]"] by auto

lemma TrimSpace_Hello: "TrimSpace ''Hello!'' = ''Hello!''"
  by (simp add: TrimSpace_def trim_runes.simps lead_width_def white_space_def)

text \<open>Claim C4. In \<open>StartConversation\<close> on a message that is not blank: when \<open>Title\<close>
  fails and \<open>Reply\<close> succeeds, the conversation handed to \<open>CreateConversation\<close>, and kept
  in memory, has the title \<^verbatim>\<open>Untitled conversation\<close> and the messages of the user and of
  the assistant, the second with the generated reply; the repository is the one that
  \<open>CreateConversation\<close> returns, and the response carries that title and reply unless
  \<open>CreateConversation\<close> itself fails. When \<open>Reply\<close> fails, whatever \<open>Title\<close> returned,
  \<open>StartConversation\<close> returns the error of \<open>Reply\<close>, the repository is unchanged and the
  conversation has no message but the user's.\<close>

theorem StartConversation_partial_failure:
  assumes "TrimSpace message \<noteq> ''''"
  shows "(snd (assist_Title (assist s) (new_conversation d message)) \<noteq> None \<and>
          snd (assist_Reply (assist s) (new_conversation d message)) = None \<longrightarrow>
            (let reply = fst (assist_Reply (assist s) (new_conversation d message));
                 conversation =
                   \<lparr>conv_ID = id_conv d, conv_Title = ''Untitled conversation'',
                    conv_CreatedAt = now_conv_created d, conv_UpdatedAt = now_conv_updated d,
                    conv_Messages =
                      [\<lparr>msg_ID = id_user d, msg_Role = RoleUser, msg_Content = message,
                        msg_CreatedAt = now_user_created d,
                        msg_UpdatedAt = now_user_updated d\<rparr>,
                       \<lparr>msg_ID = id_reply d, msg_Role = RoleAssistant, msg_Content = reply,
                        msg_CreatedAt = now_reply_created d,
                        msg_UpdatedAt = now_reply_updated d\<rparr>]\<rparr>
             in snd (StartConversation s d message r) =
                  (conversation, snd (CreateConversation s conversation r)) \<and>
                fst (StartConversation s d message r) =
                  (case fst (CreateConversation s conversation r) of
                     Some err \<Rightarrow> Inl err
                   | None \<Rightarrow>
                       Inr \<lparr>ConversationId = Hex s (id_conv d),
                            resp_Title = ''Untitled conversation'', resp_Reply = reply\<rparr>)))
       \<and> (\<forall>err. snd (assist_Reply (assist s) (new_conversation d message)) = Some err \<longrightarrow>
            fst (StartConversation s d message r) = Inl err \<and>
            snd (snd (StartConversation s d message r)) = r \<and>
            conv_Messages (fst (snd (StartConversation s d message r))) =
              conv_Messages (new_conversation d message))"
proof -
  obtain title terr where t: "assist_Title (assist s) (new_conversation d message) = (title, terr)"
    by (metis surj_pair)
  obtain reply rerr where rp: "assist_Reply (assist s) (new_conversation d message) = (reply, rerr)"
    by (metis surj_pair)
  show ?thesis
    using assms t rp
    by (cases terr; cases rerr)
       (auto simp: StartConversation_def Let_def new_conversation_def reply_message_def
          split: prod.splits option.splits)
qed

theorem StartConversation_partial_failure_witness:
  "TrimSpace ''Hello!'' \<noteq> '''' \<and>
   snd (assist_Title (assist (list_repository title_fails)) (new_conversation demo_drawn ''Hello!''))
     \<noteq> None \<and>
   StartConversation (list_repository title_fails) demo_drawn ''Hello!'' [] =
     (Inr \<lparr>ConversationId = ''64a0'', resp_Title = ''Untitled conversation'',
           resp_Reply = ''This is the reply''\<rparr>,
      \<lparr>conv_ID = ''64a0'', conv_Title = ''Untitled conversation'',
       conv_CreatedAt = 100, conv_UpdatedAt = 101,
       conv_Messages =
         [\<lparr>msg_ID = ''64a1'', msg_Role = RoleUser, msg_Content = ''Hello!'',
           msg_CreatedAt = 102, msg_UpdatedAt = 103\<rparr>,
          \<lparr>msg_ID = ''64a2'', msg_Role = RoleAssistant, msg_Content = ''This is the reply'',
           msg_CreatedAt = 200, msg_UpdatedAt = 201\<rparr>]\<rparr>,
      [\<lparr>conv_ID = ''64a0'', conv_Title = ''Untitled conversation'',
        conv_CreatedAt = 100, conv_UpdatedAt = 101,
        conv_Messages =
          [\<lparr>msg_ID = ''64a1'', msg_Role = RoleUser, msg_Content = ''Hello!'',
            msg_CreatedAt = 102, msg_UpdatedAt = 103\<rparr>,
           \<lparr>msg_ID = ''64a2'', msg_Role = RoleAssistant, msg_Content = ''This is the reply'',
            msg_CreatedAt = 200, msg_UpdatedAt = 201\<rparr>]\<rparr>]) \<and>
   snd (assist_Reply (assist (list_repository reply_fails)) (new_conversation demo_drawn ''Hello!''))
     = Some (Error ''OpenAI service unavailable'') \<and>
   fst (StartConversation (list_repository reply_fails) demo_drawn ''Hello!'' []) =
     Inl (Error ''OpenAI service unavailable'') \<and>
   snd (snd (StartConversation (list_repository reply_fails) demo_drawn ''Hello!'' [])) = [] \<and>
   conv_Messages (fst (snd (StartConversation (list_repository reply_fails) demo_drawn ''Hello!'' [])))
     = [\<lparr>msg_ID = ''64a1'', msg_Role = RoleUser, msg_Content = ''Hello!'',
          msg_CreatedAt = 102, msg_UpdatedAt = 103\<rparr>]"
proof -
  have ne: "TrimSpace ''Hello!'' \<noteq> ''''"
    by (simp add: TrimSpace_Hello)
  have a: "snd (assist_Title (assist (list_repository title_fails))
             (new_conversation demo_drawn ''Hello!'')) \<noteq> None"
    "snd (assist_Reply (assist (list_repository title_fails))
             (new_conversation demo_drawn ''Hello!'')) = None"
    "fst (assist_Reply (assist (list_repository title_fails))
             (new_conversation demo_drawn ''Hello!'')) = ''This is the reply''"
    by (simp_all add: list_repository_def title_fails_def)
  have b: "snd (assist_Reply (assist (list_repository reply_fails))
             (new_conversation demo_drawn ''Hello!'')) = Some (Error ''OpenAI service unavailable'')"
    by (simp add: list_repository_def reply_fails_def)
  have cr: "CreateConversation (list_repository as) conv r = (None, r @ [conv])"
    "Hex (list_repository as) i = i" for as conv r i
    by (simp_all add: list_repository_def)
  from StartConversation_partial_failure [OF ne, of "list_repository title_fails" demo_drawn "[]"]
  have first: "StartConversation (list_repository title_fails) demo_drawn ''Hello!'' [] =
     (Inr \<lparr>ConversationId = ''64a0'', resp_Title = ''Untitled conversation'',
           resp_Reply = ''This is the reply''\<rparr>,
      \<lparr>conv_ID = ''64a0'', conv_Title = ''Untitled conversation'',
       conv_CreatedAt = 100, conv_UpdatedAt = 101,
       conv_Messages =
         [\<lparr>msg_ID = ''64a1'', msg_Role = RoleUser, msg_Content = ''Hello!'',
           msg_CreatedAt = 102, msg_UpdatedAt = 103\<rparr>,
          \<lparr>msg_ID = ''64a2'', msg_Role = RoleAssistant, msg_Content = ''This is the reply'',
           msg_CreatedAt = 200, msg_UpdatedAt = 201\<rparr>]\<rparr>,
      [\<lparr>conv_ID = ''64a0'', conv_Title = ''Untitled conversation'',
        conv_CreatedAt = 100, conv_UpdatedAt = 101,
        conv_Messages =
          [\<lparr>msg_ID = ''64a1'', msg_Role = RoleUser, msg_Content = ''Hello!'',
            msg_CreatedAt = 102, msg_UpdatedAt = 103\<rparr>,
           \<lparr>msg_ID = ''64a2'', msg_Role = RoleAssistant, msg_Content = ''This is the reply'',
            msg_CreatedAt = 200, msg_UpdatedAt = 201\<rparr>]\<rparr>])"
    using a by (simp add: cr demo_drawn_def prod_eq_iff Let_def)
  from StartConversation_partial_failure [OF ne, of "list_repository reply_fails" demo_drawn "[]"] b
  have second: "fst (StartConversation (list_repository reply_fails) demo_drawn ''Hello!'' []) =
     Inl (Error ''OpenAI service unavailable'') \<and>
   snd (snd (StartConversation (list_repository reply_fails) demo_drawn ''Hello!'' [])) = [] \<and>
   conv_Messages (fst (snd (StartConversation (list_repository reply_fails) demo_drawn ''Hello!'' [])))
     = [\<lparr>msg_ID = ''64a1'', msg_Role = RoleUser, msg_Content = ''Hello!'',
          msg_CreatedAt = 102, msg_UpdatedAt = 103\<rparr>]"
    by (simp add: new_conversation_def demo_drawn_def)
  from ne a(1) first b second show ?thesis by blast
qed

section \<open>Properties of WeatherClient\<close>

lemma delay_1: "delay (Suc 0) = 200 * Millisecond"
  by (simp add: delay_def baseDelay_def)

lemma delay_2: "delay (Suc (Suc 0)) = 400 * Millisecond"
  by (simp add: delay_def baseDelay_def Millisecond_def)

lemma weather_loop_first_fails:
  assumes "fetchWeather c location w = ((t, Some e), w')"
  shows "weather_loop c location 0 lastErr evs w =
           weather_loop c location (Suc 0) (Some e) (evs @ [Attempt]) w'"
  using assms by (subst weather_loop.simps) simp

lemma weather_loop_second_fails:
  assumes "After c (200 * Millisecond) w = (None, w1)"
    and "fetchWeather c location w1 = ((t, Some e), w2)"
  shows "weather_loop c location (Suc 0) lastErr evs w =
           weather_loop c location (Suc (Suc 0)) (Some e)
             (evs @ [Wait (200 * Millisecond), Attempt]) w2"
  using assms by (subst weather_loop.simps) (simp add: delay_1)

lemma weather_loop_third_fails:
  assumes "After c (400 * Millisecond) w = (None, w1)"
    and "fetchWeather c location w1 = ((t, Some e), w2)"
  shows "weather_loop c location (Suc (Suc 0)) lastErr evs w =
           weather_loop c location (Suc (Suc (Suc 0))) (Some e)
             (evs @ [Wait (400 * Millisecond), Attempt]) w2"
  using assms by (subst weather_loop.simps) (simp add: delay_2)

lemma weather_loop_done:
  "weather_loop c location (Suc (Suc (Suc 0))) lastErr evs w = ((fallback, lastErr), evs, w)"
  by (subst weather_loop.simps) simp

text \<open>Claim C5. With an API key, a context that does not end, and a \<open>fetchWeather\<close> that
  returns an error on every call, \<open>GetCurrentWeather\<close> calls \<open>fetchWeather\<close> exactly three
  times, waits 200 ms before the second call and 400 ms before the third, and returns the
  fallback text together with the error of the third call, which is not \<^verbatim>\<open>nil\<close>.\<close>

theorem GetCurrentWeather_exhausts_retries:
  assumes key: "apiKey c \<noteq> ''''"
    and no_cancel: "\<forall>d w. fst (After c d w) = None"
    and fails: "\<forall>w. snd (fst (fetchWeather c location w)) \<noteq> None"
  shows "(let w1 = snd (fetchWeather c location w);
              w2 = snd (fetchWeather c location (snd (After c (200 * Millisecond) w1)));
              last = fetchWeather c location (snd (After c (400 * Millisecond) w2))
          in GetCurrentWeather c location w =
               ((fallback, snd (fst last)),
                [Attempt, Wait (200 * Millisecond), Attempt, Wait (400 * Millisecond), Attempt],
                snd last)
             \<and> snd (fst last) \<noteq> None)"
proof -
  obtain t1 e1 w1 where f1: "fetchWeather c location w = ((t1, Some e1), w1)"
    using fails by (metis option.exhaust_sel prod.collapse)
  obtain v1 where a1: "After c (200 * Millisecond) w1 = (None, v1)"
    using no_cancel by (metis prod.collapse)
  obtain t2 e2 w2 where f2: "fetchWeather c location v1 = ((t2, Some e2), w2)"
    using fails by (metis option.exhaust_sel prod.collapse)
  obtain v2 where a2: "After c (400 * Millisecond) w2 = (None, v2)"
    using no_cancel by (metis prod.collapse)
  obtain t3 e3 w3 where f3: "fetchWeather c location v2 = ((t3, Some e3), w3)"
    using fails by (metis option.exhaust_sel prod.collapse)
  have "weather_loop c location 0 None [] w =
          weather_loop c location (Suc 0) (Some e1) [Attempt] w1"
    using weather_loop_first_fails [OF f1, of None "[]"] by simp
  also have "\<dots> = weather_loop c location (Suc (Suc 0)) (Some e2)
                    [Attempt, Wait (200 * Millisecond), Attempt] w2"
    using weather_loop_second_fails [OF a1 f2, of "Some e1" "[Attempt]"] by simp
  also have "\<dots> = weather_loop c location (Suc (Suc (Suc 0))) (Some e3)
         [Attempt, Wait (200 * Millisecond), Attempt, Wait (400 * Millisecond), Attempt] w3"
    using weather_loop_third_fails [OF a2 f3, of "Some e2"
        "[Attempt, Wait (200 * Millisecond), Attempt]"] by simp
  also have "\<dots> = ((fallback, Some e3),
         [Attempt, Wait (200 * Millisecond), Attempt, Wait (400 * Millisecond), Attempt], w3)"
    by (rule weather_loop_done)
  finally have loop: "weather_loop c location 0 None [] w = ((fallback, Some e3),
         [Attempt, Wait (200 * Millisecond), Attempt, Wait (400 * Millisecond), Attempt], w3)" .
  have "GetCurrentWeather c location w = ((fallback, Some e3),
         [Attempt, Wait (200 * Millisecond), Attempt, Wait (400 * Millisecond), Attempt], w3)"
    using key loop by (simp only: GetCurrentWeather_def if_False)
  then show ?thesis
    by (simp only: Let_def f1 a1 f2 a2 f3 snd_conv fst_conv) simp
qed

lemma decimal_digit: "n < 10 \<Longrightarrow> decimal n = [digit n]"
  by (subst decimal.simps) simp

theorem GetCurrentWeather_exhausts_retries_witness:
  "apiKey refused_client \<noteq> '''' \<and>
   GetCurrentWeather refused_client ''Barcelona'' 0 =
     ((fallback, Some (Error ''making request: connection refused at step 4'')),
      [Attempt, Wait (200 * Millisecond), Attempt, Wait (400 * Millisecond), Attempt], 5)"
proof -
  have key: "apiKey refused_client \<noteq> ''''"
    by (simp add: refused_client_def)
  have no_cancel: "\<forall>d w. fst (After refused_client d w) = None"
    by (simp add: refused_client_def)
  have f: "fetchWeather refused_client ''Barcelona'' w =
             (('''', Some (Error (''making request: connection refused at step '' @ decimal w))),
              w + 1)" for w
    by (simp add: fetchWeather_def refused_client_def)
  have fails: "\<forall>w. snd (fst (fetchWeather refused_client ''Barcelona'' w)) \<noteq> None"
    by (simp only: f fst_conv snd_conv) simp
  have a: "snd (After refused_client d w) = w + 1" for d w
    by (simp add: refused_client_def)
  have four: "decimal 4 = ''4''"
    by (simp add: decimal_digit digit_def)
  have w: "(0::nat) + 1 + 1 + 1 + 1 = 4" "(4::nat) + 1 = 5"
    by simp_all
  from GetCurrentWeather_exhausts_retries [OF key no_cancel fails, of 0]
  have "GetCurrentWeather refused_client ''Barcelona'' 0 =
     ((fallback, Some (Error (''making request: connection refused at step '' @ ''4''))),
      [Attempt, Wait (200 * Millisecond), Attempt, Wait (400 * Millisecond), Attempt], 5)"
    by (simp only: Let_def f a fst_conv snd_conv w four)
  with key show ?thesis by simp
qed

section \<open>Properties of HolidaysTool\<close>

lemma holidays_loop_acc:
  assumes "\<forall>e\<in>set events. SUMMARY e \<noteq> None"
  shows "holidays_loop events maxCount beforeDate afterDate acc =
     Inr (acc @
       (if maxCount > 0 then take (nat maxCount - length acc) else (\<lambda>xs. xs))
         (List.map_filter
            (\<lambda>e. case AllDayStartAt e of
                    Inl err \<Rightarrow> None
                  | Inr date \<Rightarrow>
                      if (\<not> IsZero beforeDate \<and> After_time date beforeDate) \<or>
                         (\<not> IsZero afterDate \<and> Before date afterDate)
                      then None
                      else Some (Format_DateOnly date @ '': '' @ the (SUMMARY e)))
            events))"
  using assms
proof (induction events arbitrary: acc)
  case Nil
  show ?case by (simp add: List.map_filter_simps)
next
  case (Cons e events)
  then have IH: "\<And>acc. holidays_loop events maxCount beforeDate afterDate acc =
     Inr (acc @
       (if maxCount > 0 then take (nat maxCount - length acc) else (\<lambda>xs. xs))
         (List.map_filter
            (\<lambda>e. case AllDayStartAt e of
                    Inl err \<Rightarrow> None
                  | Inr date \<Rightarrow>
                      if (\<not> IsZero beforeDate \<and> After_time date beforeDate) \<or>
                         (\<not> IsZero afterDate \<and> Before date afterDate)
                      then None
                      else Some (Format_DateOnly date @ '': '' @ the (SUMMARY e)))
            events))"
    by simp
  from Cons.prems obtain s where s: "SUMMARY e = Some s" by auto
  show ?case
  proof (cases "AllDayStartAt e")
    case (Inl err)
    then show ?thesis by (simp add: IH List.map_filter_simps)
  next
    case (Inr date)
    show ?thesis
    proof (cases "maxCount > 0 \<and> int (length acc) \<ge> maxCount")
      case True
      then have "nat maxCount - length acc = 0" by linarith
      with True Inr show ?thesis by simp
    next
      case False
      show ?thesis
      proof (cases "(\<not> IsZero beforeDate \<and> After_time date beforeDate) \<or>
                     (\<not> IsZero afterDate \<and> Before date afterDate)")
        case True
        with False Inr show ?thesis by (auto simp: IH List.map_filter_simps)
      next
        case keep: False
        have room: "maxCount > 0 \<Longrightarrow> nat maxCount - length acc = Suc (nat maxCount - Suc (length acc))"
          using False by linarith
        from keep False Inr s show ?thesis
          by (auto simp: IH List.map_filter_simps room)
      qed
    qed
  qed
qed

text \<open>The loop of \<open>Execute\<close> over a feed in which every event has a summary: an event
  whose date is malformed is skipped; an event is skipped when the before bound is set and
  the date is after it, or when the after bound is set and the date is before it (a bound
  is set when it is not the zero time, which is what an omitted argument leaves); every
  other event gives the line \<^verbatim>\<open>YYYY-MM-DD: summary\<close>; the lines are in the order of the
  feed, only the first \<open>maxCount\<close> of them are kept when \<open>maxCount > 0\<close>, and the text
  returned is these lines joined by line feeds. At an event with a well-formed date, once
  \<open>maxCount\<close> lines are collected the loop returns what it has, whatever the date. The
  example has events on 2024-01-01, 2024-06-15 and 2024-12-25, the after bound 2024-02-01
  and \<open>maxCount = 1\<close>: the text is the line of 2024-06-15 alone.\<close>

lemma filter_holidays_spec:
  assumes "\<forall>e\<in>set events. SUMMARY e \<noteq> None"
  shows "filter_holidays events maxCount beforeDate afterDate =
     Inr (Join
       ((if maxCount > 0 then take (nat maxCount) else (\<lambda>xs. xs))
         (List.map_filter
            (\<lambda>e. case AllDayStartAt e of
                    Inl err \<Rightarrow> None
                  | Inr date \<Rightarrow>
                      if (\<not> IsZero beforeDate \<and> After_time date beforeDate) \<or>
                         (\<not> IsZero afterDate \<and> Before date afterDate)
                      then None
                      else Some (Format_DateOnly date @ '': '' @ the (SUMMARY e)))
            events))
       [CHR 0x0A])
   \<and> (\<forall>event rest date acc.
         AllDayStartAt event = Inr date \<and> maxCount > 0 \<and> int (length acc) \<ge> maxCount \<longrightarrow>
           holidays_loop (event # rest) maxCount beforeDate afterDate acc = Inr acc)"
  using holidays_loop_acc [OF assms, of maxCount beforeDate afterDate "[]"]
  by (simp add: filter_holidays_def)

lemma filter_holidays_example:
  "filter_holidays demo_events 1 zero_Time (midnight 2024 2 1) = Inr ''2024-06-15: Summer Fair''"
proof -
  have h: "\<forall>e\<in>set demo_events. SUMMARY e \<noteq> None"
    by (simp add: demo_events_def)
  have "filter_holidays demo_events 1 zero_Time (midnight 2024 2 1) =
     Inr (Join
       ((if (1::int) > 0 then take (nat 1) else (\<lambda>xs. xs))
         (List.map_filter
            (\<lambda>e. case AllDayStartAt e of
                    Inl err \<Rightarrow> None
                  | Inr date \<Rightarrow>
                      if (\<not> IsZero zero_Time \<and> After_time date zero_Time) \<or>
                         (\<not> IsZero (midnight 2024 2 1) \<and> Before date (midnight 2024 2 1))
                      then None
                      else Some (Format_DateOnly date @ '': '' @ the (SUMMARY e)))
            demo_events))
       [CHR 0x0A])"
    using filter_holidays_spec [OF h, of 1 zero_Time "midnight 2024 2 1"] by blast
  also have "\<dots> = Inr ''2024-06-15: Summer Fair''"
    by code_simp
  finally show ?thesis .
qed

text \<open>Claim C8, at a feed with an event that has no summary. The second event of the feed
  has a well-formed date and no \<^verbatim>\<open>SUMMARY\<close> property; no bound and no cap are given, so
  the event is kept. Line 146 reads \<^verbatim>\<open>.Value\<close> of what \<^verbatim>\<open>GetProperty\<close> returned, which is
  \<^verbatim>\<open>nil\<close>: \<open>Execute\<close> does not return the lines of the events, it panics.\<close>

theorem Execute_holidays_missing_summary:
  "filter_holidays nosummary_feed 0 zero_Time zero_Time = Inl NilPointerDereference \<and>
   Execute_holidays nosummary_tool ''{}'' 0 = (Inl NilPointerDereference, 1)"
proof -
  have z: "IsZero zero_Time"
    by (simp add: IsZero_def zero_Time_def)
  have f: "filter_holidays nosummary_feed 0 zero_Time zero_Time = Inl NilPointerDereference"
    by (simp add: filter_holidays_def nosummary_feed_def z)
  have "Execute_holidays nosummary_tool ''{}'' 0 = (Inl NilPointerDereference, 1)"
    by (simp add: Execute_holidays_def nosummary_tool_def f)
  with f show ?thesis by simp
qed

section \<open>Properties of the weather text\<close>

text \<open>Claim C9. The text that \<open>fetchWeather\<close> formats is, line by line: the heading, the
  temperature with the felt temperature, the conditions, the wind, the humidity and the
  cloud coverage, in every case; then a precipitation line exactly when the precipitation
  is greater than 0 mm; then the warning of a high UV index exactly when the UV index is
  greater than 6.\<close>

theorem format_weather_lines:
  "format_weather f r =
     Join
       ([''Current weather in '' @ Location_Name r @ '', '' @ Location_Country r @ '' ('' @
           (if IsDay r = 0 then ''at night'' else ''during the day'') @ ''):'',
         ''Temperature: '' @ f 1 (TempC r) @ degree @ ''C (feels like '' @
           f 1 (FeelsLikeC r) @ degree @ ''C)'',
         ''Conditions: '' @ Condition_Text r,
         ''Wind: '' @ f 1 (WindKph r) @ '' km/h from '' @ WindDir r,
         ''Humidity: '' @ Itoa (Humidity r) @ ''%'',
         ''Cloud coverage: '' @ Itoa (Cloud r) @ ''%''] @
        (if PrecipMm r > 0 then [''Precipitation: '' @ f 1 (PrecipMm r) @ '' mm''] else []) @
        (if UV r > 6 then ['' High UV index: '' @ f 0 (UV r) @ '' (use sun protection)''] else []))
       [CHR 0x0A]"
  by (simp add: format_weather_def Let_def)

theorem format_weather_lines_witness:
  "format_weather demo_Sprintf clear_day =
     Join
       [''Current weather in Barcelona, Spain (during the day):'',
        ''Temperature: 18.5'' @ degree @ ''C (feels like 17.0'' @ degree @ ''C)'',
        ''Conditions: Sunny'',
        ''Wind: 11.2 km/h from NE'',
        ''Humidity: 60%'',
        ''Cloud coverage: 0%'',
        '' High UV index: 8 (use sun protection)'']
       [CHR 0x0A]"
proof -
  have n: "Itoa 60 = ''60''" "Itoa 0 = ''0''"
    by (simp_all add: Itoa_def decimal.simps [of 60] decimal.simps [of 6] decimal.simps [of 0]
        digit_def)
  show ?thesis
    using format_weather_lines [of demo_Sprintf clear_day]
    by (simp add: clear_day_def demo_Sprintf_def n)
qed

section \<open>Properties of Assistant.Title\<close>

text \<open>Claim C6, at a title beyond ASCII. \<^verbatim>\<open>len(title) > 80\<close> and \<^verbatim>\<open>title[:80]\<close> count
  bytes. The model output here is the letter a followed by 81 times the letter e with an
  acute accent (two bytes each in UTF-8): 82 characters in 163 bytes. \<open>Title\<close> keeps the
  first 80 bytes: the letter a, 39 accented letters and the first byte of the 40th, which
  is 40 whole characters and half of one, not 80 characters, and not valid UTF-8.\<close>

theorem Title_truncates_bytes:
  "rune_count accented_title = 82 \<and>
   title_of_choices [\<lparr>Content = accented_title, ToolCalls = []\<rparr>] =
     (''a'' @ concat (replicate 39 e_acute) @ [CHR 0xC3], None) \<and>
   length (''a'' @ concat (replicate 39 e_acute) @ [CHR 0xC3]) = 80 \<and>
   rune_count (''a'' @ concat (replicate 39 e_acute) @ [CHR 0xC3]) = 41"
  by code_simp

text \<open>What the lines after the model call do in every case, in bytes, and the example of
  the specification.\<close>

lemma title_of_choices_bytes:
  "title_of_choices (choice # rest) =
     (if TrimSpace (Content choice) = '''' then ('''', Some EmptyTitle)
      else (take 80 (Trim (ReplaceAll (Content choice) (CHR 0x0A) (CHR '' '')) title_cutset), None))"
  by (simp add: title_of_choices_def Let_def)

lemma title_of_choices_example:
  "title_of_choices [\<lparr>Content = ''-- Weather chat in Barcelona --'' @ [CHR 0x0A], ToolCalls = []\<rparr>] =
     (''Weather chat in Barcelona'', None)"
  by code_simp

text \<open>Claim C7, with the literal of the code. On a conversation with no message,
  \<open>Title\<close> returns the fixed text \<^verbatim>\<open>An empty conversation\<close> and no error, and makes
  no model call: the list of its model calls is empty and the world is unchanged.\<close>

theorem Title_empty_conversation:
  assumes "conv_Messages conv = []"
  shows "Title a conv w = ((''An empty conversation'', None), [], w)"
  using assms by (simp add: Title_def)

theorem Title_empty_conversation_witness:
  "conv_Messages empty_conversation = [] \<and>
   Title demo_assistant empty_conversation 0 = ((''An empty conversation'', None), [], 0)"
proof -
  have e: "conv_Messages empty_conversation = []"
    by (simp add: empty_conversation_def)
  from Title_empty_conversation [OF e, of demo_assistant 0] e show ?thesis by simp
qed

text \<open>Claim C7 as stated fails: the default title of the specification, the one that
  \<open>StartConversation\<close> gives a new conversation, is \<^verbatim>\<open>Untitled conversation\<close>, and that is
  not what \<open>Title\<close> returns on a conversation with no message.\<close>

theorem Title_empty_is_not_the_default_title:
  "conv_Title (new_conversation demo_drawn ''Hello!'') = ''Untitled conversation'' \<and>
   fst (fst (Title demo_assistant empty_conversation 0)) \<noteq> ''Untitled conversation''"
  by (simp add: new_conversation_def Title_def empty_conversation_def)

end
